theory Spec2Isabelle
  imports Complex_Main "HOL-Library.Sublist" "HOL-Library.Char_ord" "HOL-Library.List_Lexorder"
begin

section \<open>Numbers\<close>

text \<open>
  Amounts are Python floats. A float is modelled as a real number, or one of the three
  special values of IEEE arithmetic. The special values are kept because the code depends
  on them: the standard deviation of a single value is NaN, and every comparison with NaN
  is false. The operations below give the exact result on finite operands; the anomaly
  detector, whose guard and comparison depend on the last bit, rounds its results through
  the library.
\<close>

datatype pyfloat = Finite real | PosInf | NegInf | NaN

fun fsub :: "pyfloat \<Rightarrow> pyfloat \<Rightarrow> pyfloat" where
  "fsub (Finite a) (Finite b) = Finite (a - b)"
| "fsub NaN _ = NaN"
| "fsub _ NaN = NaN"
| "fsub PosInf PosInf = NaN"
| "fsub NegInf NegInf = NaN"
| "fsub PosInf _ = PosInf"
| "fsub NegInf _ = NegInf"
| "fsub (Finite a) PosInf = NegInf"
| "fsub (Finite a) NegInf = PosInf"

fun fneg :: "pyfloat \<Rightarrow> pyfloat" where
  "fneg (Finite a) = Finite (- a)"
| "fneg PosInf = NegInf"
| "fneg NegInf = PosInf"
| "fneg NaN = NaN"

fun fabs :: "pyfloat \<Rightarrow> pyfloat" where
  "fabs (Finite a) = Finite \<bar>a\<bar>"
| "fabs PosInf = PosInf"
| "fabs NegInf = PosInf"
| "fabs NaN = NaN"

text \<open>Division as numpy does it on arrays: a zero divisor gives an infinity or NaN.\<close>

fun fdiv :: "pyfloat \<Rightarrow> pyfloat \<Rightarrow> pyfloat" where
  "fdiv (Finite a) (Finite b) =
     (if b = 0 then (if a = 0 then NaN else if 0 < a then PosInf else NegInf)
      else Finite (a / b))"
| "fdiv NaN _ = NaN"
| "fdiv _ NaN = NaN"
| "fdiv (Finite a) _ = Finite 0"
| "fdiv PosInf (Finite b) = (if 0 \<le> b then PosInf else NegInf)"
| "fdiv NegInf (Finite b) = (if 0 \<le> b then NegInf else PosInf)"
| "fdiv _ _ = NaN"

text \<open>\<open>a > b\<close> and \<open>a == b\<close> on floats: false whenever an operand is NaN.\<close>

fun fgt :: "pyfloat \<Rightarrow> pyfloat \<Rightarrow> bool" where
  "fgt (Finite a) (Finite b) = (b < a)"
| "fgt NaN _ = False"
| "fgt _ NaN = False"
| "fgt PosInf PosInf = False"
| "fgt PosInf _ = True"
| "fgt _ PosInf = False"
| "fgt NegInf _ = False"
| "fgt (Finite a) NegInf = True"

fun feq :: "pyfloat \<Rightarrow> pyfloat \<Rightarrow> bool" where
  "feq (Finite a) (Finite b) = (a = b)"
| "feq PosInf PosInf = True"
| "feq NegInf NegInf = True"
| "feq _ _ = False"

section \<open>Strings\<close>

text \<open>
  Python strings are modelled as lists of characters. Case folding and white space follow
  the ASCII range; other characters are left as they are.
\<close>

definition lower_char :: "char \<Rightarrow> char" where
  "lower_char c =
     (case map_of (zip ''ABCDEFGHIJKLMNOPQRSTUVWXYZ'' ''abcdefghijklmnopqrstuvwxyz'') c of
        Some d \<Rightarrow> d
      | None \<Rightarrow> c)"

definition lower :: "string \<Rightarrow> string" where
  "lower s = map lower_char s"

text \<open>\<open>sub in s\<close> on strings is \<^const>\<open>sublist\<close>: a contiguous substring.\<close>

definition digit_char :: "nat \<Rightarrow> char" where
  "digit_char n = ''0123456789'' ! n"

function string_of_nat :: "nat \<Rightarrow> string" where
  "string_of_nat n =
     (if n < 10 then [digit_char n]
      else string_of_nat (n div 10) @ [digit_char (n mod 10)])"
  by pat_completeness auto
termination
  by (relation "measure id") auto

declare string_of_nat.simps [simp del]

definition string_of_int :: "int \<Rightarrow> string" where
  "string_of_int i =
     (if i < 0 then CHR ''-'' # string_of_nat (nat (- i)) else string_of_nat (nat i))"

text \<open>
  \<open>str.strip()\<close> removes the white space at both ends; \<open>str.replace(old, new)\<close> replaces
  the occurrences of a non-empty \<open>old\<close> from left to right, without overlap.
\<close>

definition is_space :: "char \<Rightarrow> bool" where
  "is_space c =
     (c \<in> set [CHR 0x09, CHR 0x0A, CHR 0x0B, CHR 0x0C, CHR 0x0D, CHR 0x1C, CHR 0x1D, CHR 0x1E,
                CHR 0x1F, CHR 0x20])"

definition strip :: "string \<Rightarrow> string" where
  "strip s = rev (dropWhile is_space (rev (dropWhile is_space s)))"

function replace :: "string \<Rightarrow> string \<Rightarrow> string \<Rightarrow> string" where
  "replace old new [] = []"
| "replace old new (c # s) =
     (if old \<noteq> [] \<and> prefix old (c # s)
      then new @ replace old new (drop (length old) (c # s))
      else c # replace old new s)"
  by pat_completeness auto
termination
  by (relation "measure (\<lambda>(old, new, s). length s)") (auto simp: neq_Nil_conv)

text \<open>
  Number literals. \<open>float(s)\<close> and \<open>int(s)\<close> skip the white space around the literal and
  accept an underscore between two digits. A float literal is an optional sign followed by
  \<open>inf\<close>, \<open>infinity\<close> or \<open>nan\<close> in any case, or by digits with an optional point and an
  optional exponent; its value is taken exactly. An integer literal is an optional sign
  followed by digits. \<open>None\<close> stands for the \<open>ValueError\<close> of a malformed literal.
\<close>

definition is_digit :: "char \<Rightarrow> bool" where
  "is_digit c = (c \<in> set ''0123456789'')"

definition digit_val :: "char \<Rightarrow> nat" where
  "digit_val c = (case map_of (zip ''0123456789'' [0, 1, 2, 3, 4, 5, 6, 7, 8, 9]) c of Some n \<Rightarrow> n | None \<Rightarrow> 0)"

definition nat_of_digits :: "string \<Rightarrow> nat" where
  "nat_of_digits ds = foldl (\<lambda>a c. 10 * a + digit_val c) 0 ds"

fun drop_underscores :: "bool \<Rightarrow> string \<Rightarrow> string option" where
  "drop_underscores prev_digit [] = Some []"
| "drop_underscores prev_digit (c # s) =
     (if c = CHR ''_''
      then (if prev_digit \<and> s \<noteq> [] \<and> is_digit (hd s) then drop_underscores False s else None)
      else map_option (Cons c) (drop_underscores (is_digit c) s))"

definition split_sign :: "string \<Rightarrow> bool \<times> string" where
  "split_sign s =
     (if s \<noteq> [] \<and> hd s = CHR ''-'' then (True, tl s)
      else if s \<noteq> [] \<and> hd s = CHR ''+'' then (False, tl s)
      else (False, s))"

definition signed_digits :: "string \<Rightarrow> int option" where
  "signed_digits s =
     (let (neg, ds) = split_sign s
      in if ds \<noteq> [] \<and> list_all is_digit ds
         then Some (if neg then - int (nat_of_digits ds) else int (nat_of_digits ds))
         else None)"

definition py_int :: "string \<Rightarrow> int option" where
  "py_int s0 =
     (case drop_underscores False (strip s0) of
        None \<Rightarrow> None
      | Some s \<Rightarrow> signed_digits s)"

definition scale10 :: "nat \<Rightarrow> int \<Rightarrow> real" where
  "scale10 m e = (if 0 \<le> e then real m * 10 ^ nat e else real m / 10 ^ nat (- e))"

definition py_float :: "string \<Rightarrow> pyfloat option" where
  "py_float s0 =
     (case drop_underscores False (strip s0) of
        None \<Rightarrow> None
      | Some s \<Rightarrow>
          (let (neg, body) = split_sign s
           in if lower body = ''inf'' \<or> lower body = ''infinity''
              then Some (if neg then NegInf else PosInf)
              else if lower body = ''nan'' then Some NaN
              else
                (let ip = takeWhile is_digit body;
                     r1 = dropWhile is_digit body;
                     has_point = (r1 \<noteq> [] \<and> hd r1 = CHR ''.'');
                     fp = (if has_point then takeWhile is_digit (tl r1) else []);
                     r2 = (if has_point then dropWhile is_digit (tl r1) else r1);
                     ex = (if r2 = [] then Some 0
                           else if hd r2 = CHR ''e'' \<or> hd r2 = CHR ''E''
                           then signed_digits (tl r2)
                           else None)
                 in if ip = [] \<and> fp = [] then None
                    else (case ex of
                            None \<Rightarrow> None
                          | Some e \<Rightarrow>
                              (let v = scale10 (nat_of_digits (ip @ fp)) (e - int (length fp))
                               in Some (Finite (if neg then - v else v)))))))"

section \<open>Cells, tables and the library\<close>

text \<open>
  A cell of a pandas table: a float (NaN is the missing value), an integer, a boolean, a
  string, a timestamp in nanoseconds since the epoch, or the missing timestamp NaT.
\<close>

datatype cell = Flt pyfloat | IntC int | BoolC bool | Str string | Stamp int | NaT

fun isna :: "cell \<Rightarrow> bool" where
  "isna (Flt NaN) = True"
| "isna NaT = True"
| "isna _ = False"

text \<open>
  A DataFrame with the default row index: the column labels in order (labels may repeat)
  and the rows, each with one cell per column.
\<close>

record 'l frame =
  columns :: "'l list"
  rows :: "cell list list"

text \<open>
  The exceptions that leave the cleaning pipeline: the three kinds of \<open>ValueError\<close> that
  the code raises itself, and an exception raised inside a pandas call, by its name.
\<close>

datatype error =
    NoCsvProvided
  | ProcessingError string
  | MissingColumns "string list" "string list"
  | PandasError string

text \<open>
  The library functions whose definition lies outside the repository are parameters:
  \<open>str\<close> of a finite float and of a timestamp, the text of the month of a timestamp,
  \<open>pd.to_datetime(column, errors="coerce")\<close>
  (the timestamp at each position of a column, \<open>None\<close> for NaT), \<open>fuzz.partial_ratio\<close> of
  rapidfuzz, and \<open>pd.read_csv\<close> on a path and on the text of a buffer (with the number of
  leading rows to skip, when given). So are the floating-point results that the anomaly
  detector works with: the double that \<open>Series.mean()\<close> returns on a column of numbers
  that is not empty, the double that \<open>Series.std()\<close> returns on a column of at least two
  numbers, and the double (or infinity) to which float arithmetic rounds an exact result.
\<close>

record pylib =
  float_str :: "real \<Rightarrow> string"
  stamp_str :: "int \<Rightarrow> string"
  period_str :: "int \<Rightarrow> string"
  to_datetime :: "cell list \<Rightarrow> nat \<Rightarrow> int option"
  partial_ratio :: "string \<Rightarrow> string \<Rightarrow> real"
  read_csv_path :: "string \<Rightarrow> error + cell frame"
  read_csv :: "string \<Rightarrow> nat option \<Rightarrow> error + cell frame"
  mean_value :: "real list \<Rightarrow> pyfloat"
  std_value :: "real list \<Rightarrow> pyfloat"
  round_float :: "real \<Rightarrow> pyfloat"

fun str_cell :: "pylib \<Rightarrow> cell \<Rightarrow> string" where
  "str_cell lib (Flt (Finite r)) = float_str lib r"
| "str_cell lib (Flt PosInf) = ''inf''"
| "str_cell lib (Flt NegInf) = ''-inf''"
| "str_cell lib (Flt NaN) = ''nan''"
| "str_cell lib (IntC i) = string_of_int i"
| "str_cell lib (BoolC b) = (if b then ''True'' else ''False'')"
| "str_cell lib (Str s) = s"
| "str_cell lib (Stamp t) = stamp_str lib t"
| "str_cell lib NaT = ''NaT''"

section \<open>Header normalizer\<close>

fun join :: "string \<Rightarrow> string list \<Rightarrow> string" where
  "join sep [] = []"
| "join sep [x] = x"
| "join sep (x # y # xs) = x @ sep @ join sep (y # xs)"

definition header_keywords :: "string list" where
  "header_keywords = [''trans'', ''date'', ''description'', ''debit'', ''credit'', ''narration'']"

text \<open>The text of a row: its cells that are not missing, as lower-case strings, spaced.\<close>

definition row_str :: "pylib \<Rightarrow> cell list \<Rightarrow> string" where
  "row_str lib row = join '' '' (map (\<lambda>val. lower (str_cell lib val)) (filter (\<lambda>val. \<not> isna val) row))"

definition has_keyword :: "string list \<Rightarrow> string \<Rightarrow> bool" where
  "has_keyword keywords s = list_ex (\<lambda>keyword. sublist keyword s) keywords"

text \<open>
  The table re-based on row \<open>idx\<close>: the cells of that row are the column labels, the rows
  below it are the data.
\<close>

definition promote_header :: "cell frame \<Rightarrow> nat \<Rightarrow> cell frame" where
  "promote_header df idx = \<lparr>columns = rows df ! idx, rows = drop (Suc idx) (rows df)\<rparr>"

text \<open>The loop of \<open>detect_and_skip_header\<close> over the row positions still to look at.\<close>

fun scan_header :: "pylib \<Rightarrow> cell frame \<Rightarrow> nat list \<Rightarrow> cell frame" where
  "scan_header lib df [] = df"
| "scan_header lib df (idx # rest) =
     (if has_keyword header_keywords (row_str lib (rows df ! idx)) then promote_header df idx
      else scan_header lib df rest)"

definition detect_and_skip_header :: "pylib \<Rightarrow> cell frame \<Rightarrow> cell frame" where
  "detect_and_skip_header lib df =
     (let max_rows = min 20 (length (rows df)) in scan_header lib df [0..<max_rows])"

section \<open>Operations on tables\<close>

text \<open>
  The cell of a row at a column position (a row shorter than the header reads as missing
  there, as \<open>read_csv\<close> pads it), the column at a position, the table restricted to a list
  of column positions, and the positions that carry a given label.
\<close>

definition cell_at :: "cell list \<Rightarrow> nat \<Rightarrow> cell" where
  "cell_at row j = (if j < length row then row ! j else Flt NaN)"

definition column_at :: "'l frame \<Rightarrow> nat \<Rightarrow> cell list" where
  "column_at df j = map (\<lambda>row. cell_at row j) (rows df)"

definition select_columns :: "'l frame \<Rightarrow> nat list \<Rightarrow> 'l frame" where
  "select_columns df js =
     \<lparr>columns = map (\<lambda>j. columns df ! j) js,
      rows = map (\<lambda>row. map (cell_at row) js) (rows df)\<rparr>"

definition positions :: "'l frame \<Rightarrow> 'l \<Rightarrow> nat list" where
  "positions df label = filter (\<lambda>j. columns df ! j = label) [0..<length (columns df)]"

text \<open>\<open>df.drop(columns=labels)\<close>: every column with one of the labels goes.\<close>

definition drop_columns :: "'l frame \<Rightarrow> 'l list \<Rightarrow> 'l frame" where
  "drop_columns df labels =
     select_columns df (filter (\<lambda>j. columns df ! j \<notin> set labels) [0..<length (columns df)])"

text \<open>
  \<open>df[label] = values\<close>, one value per row: the values replace the column of that label
  where there is one, and are appended as a new last column otherwise.
\<close>

definition set_column :: "'l frame \<Rightarrow> 'l \<Rightarrow> cell list \<Rightarrow> 'l frame" where
  "set_column df label values =
     (if label \<in> set (columns df)
      then \<lparr>columns = columns df,
            rows = map (\<lambda>(row, v). map (\<lambda>j. if columns df ! j = label then v else cell_at row j)
                                       [0..<length (columns df)])
                       (zip (rows df) values)\<rparr>
      else \<lparr>columns = columns df @ [label],
            rows = map (\<lambda>(row, v). map (cell_at row) [0..<length (columns df)] @ [v])
                       (zip (rows df) values)\<rparr>)"

section \<open>Column mapper\<close>

text \<open>Lines 80 to 89: every label becomes its text, trimmed and in lower case.\<close>

definition standardize_columns :: "pylib \<Rightarrow> cell frame \<Rightarrow> string frame" where
  "standardize_columns lib df =
     \<lparr>columns = map (\<lambda>c. lower (strip (str_cell lib c))) (columns df), rows = rows df\<rparr>"

text \<open>
  Lines 91 to 95. \<open>cols[cols.duplicated()].unique()\<close> are the labels that occur again
  after their first occurrence, each once, in the order in which they first recur. For
  each of them in turn, the occurrences in the current labels are renamed \<open>dup\<close>,
  \<open>dup.1\<close>, \<open>dup.2\<close> and so on.
\<close>

fun duplicated :: "'a list \<Rightarrow> 'a list \<Rightarrow> 'a list" where
  "duplicated seen [] = []"
| "duplicated seen (x # xs) =
     (if x \<in> set seen then x # duplicated seen xs else duplicated (x # seen) xs)"

definition unique :: "'a list \<Rightarrow> 'a list" where
  "unique xs = rev (remdups (rev xs))"

fun rename_dup :: "string \<Rightarrow> nat \<Rightarrow> string list \<Rightarrow> string list" where
  "rename_dup dup i [] = []"
| "rename_dup dup i (c # cols) =
     (if c = dup
      then (if i \<noteq> 0 then dup @ ''.'' @ string_of_nat i else dup) # rename_dup dup (Suc i) cols
      else c # rename_dup dup i cols)"

definition dedupe_columns :: "string frame \<Rightarrow> string frame" where
  "dedupe_columns df =
     \<lparr>columns = foldl (\<lambda>cols dup. rename_dup dup 0 cols) (columns df)
                  (unique (duplicated [] (columns df))),
      rows = rows df\<rparr>"

text \<open>
  Line 98, \<open>dropna(axis=1, how='all')\<close>: a column all of whose cells are missing goes; in a
  table without rows that is every column.
\<close>

definition drop_empty_columns :: "string frame \<Rightarrow> string frame" where
  "drop_empty_columns df =
     select_columns df
       (filter (\<lambda>j. \<not> list_all isna (column_at df j)) [0..<length (columns df)])"

text \<open>
  Lines 100 to 109. For a label that occurs twice \<open>df[col]\<close> is a table, the comparison
  yields a Series, and its truth value raises \<open>ValueError\<close>.
\<close>

fun unnamed_to_drop :: "string frame \<Rightarrow> string list \<Rightarrow> error + string list" where
  "unnamed_to_drop df [] = Inr []"
| "unnamed_to_drop df (col # cols) =
     (if sublist ''unnamed'' (lower col)
      then (if length (positions df col) \<noteq> 1 then Inl (PandasError ''ValueError'')
            else (case unnamed_to_drop df cols of
                    Inl e \<Rightarrow> Inl e
                  | Inr cols_to_drop \<Rightarrow>
                      (if 2 * length (filter isna (column_at df (hd (positions df col))))
                            > length (rows df)
                       then Inr (col # cols_to_drop) else Inr cols_to_drop)))
      else unnamed_to_drop df cols)"

definition drop_unnamed_columns :: "string frame \<Rightarrow> error + string frame" where
  "drop_unnamed_columns df =
     (case unnamed_to_drop df (columns df) of
        Inl e \<Rightarrow> Inl e
      | Inr cols_to_drop \<Rightarrow> Inr (if cols_to_drop \<noteq> [] then drop_columns df cols_to_drop else df))"

text \<open>
  Lines 111 to 120. \<open>astype(int)\<close> truncates a float, keeps an integer, reads a string as
  an integer literal, and gives the nanoseconds of a column of timestamps; it raises on
  an infinity, on a malformed literal and on a timestamp among other values. The column
  without its missing cells \<open>equals\<close> the Series \<open>0, 1, 2, ...\<close> when its row labels are
  \<open>0, 1, 2, ...\<close> too, that is when no missing cell stands before a present one, and its
  values are these numbers. Any exception leaves the table as it is.
\<close>

fun int_of_cell :: "cell \<Rightarrow> int option" where
  "int_of_cell (Flt (Finite r)) = Some (if 0 \<le> r then \<lfloor>r\<rfloor> else \<lceil>r\<rceil>)"
| "int_of_cell (Flt _) = None"
| "int_of_cell (IntC i) = Some i"
| "int_of_cell (BoolC b) = Some (if b then 1 else 0)"
| "int_of_cell (Str s) = py_int s"
| "int_of_cell (Stamp t) = None"
| "int_of_cell NaT = None"

fun is_time :: "cell \<Rightarrow> bool" where
  "is_time (Stamp t) = True"
| "is_time NaT = True"
| "is_time _ = False"

fun stamp_value :: "cell \<Rightarrow> int option" where
  "stamp_value (Stamp t) = Some t"
| "stamp_value _ = None"

fun all_some :: "'a option list \<Rightarrow> 'a list option" where
  "all_some [] = Some []"
| "all_some (None # xs) = None"
| "all_some (Some x # xs) = map_option (Cons x) (all_some xs)"

definition astype_int :: "cell list \<Rightarrow> cell list \<Rightarrow> int list option" where
  "astype_int col present =
     (if list_all is_time col then all_some (map stamp_value present)
      else all_some (map int_of_cell present))"

definition is_row_numbers :: "cell list \<Rightarrow> bool" where
  "is_row_numbers col =
     (let present = filter (\<lambda>c. \<not> isna c) col
      in take (length present) col = present
         \<and> astype_int col present = Some (map int [0..<length present]))"

definition drop_index_column :: "string frame \<Rightarrow> string frame" where
  "drop_index_column df =
     (if length (columns df) > 0
      then (let first_col = hd (columns df)
            in if sublist ''unnamed'' (lower first_col)
               then (if length (positions df first_col) = 1 \<and> is_row_numbers (column_at df 0)
                     then drop_columns df [first_col] else df)
               else df)
      else df)"

text \<open>Lines 122 to 152: the role of a label, by the substrings it contains.\<close>

definition map_column :: "string \<Rightarrow> string" where
  "map_column col =
     (let col_clean = lower (strip col);
          col_clean_simple = replace ''?'' [] (replace '')'' [] (replace ''('' [] col_clean))
      in if sublist ''desc'' col_clean_simple \<or> sublist ''narration'' col_clean_simple
            \<or> sublist ''details'' col_clean_simple \<or> sublist ''particular'' col_clean_simple
         then ''description''
         else if (sublist ''trans'' col_clean_simple \<and> sublist ''date'' col_clean_simple)
                 \<or> sublist ''transdate'' col_clean_simple
         then (if \<not> sublist ''value'' col_clean_simple then ''date'' else col)
         else if sublist ''debit'' col_clean_simple \<and> \<not> sublist ''credit'' col_clean_simple
         then ''debit''
         else if sublist ''credit'' col_clean_simple \<and> \<not> sublist ''debit'' col_clean_simple
         then ''credit''
         else col)"

definition rename_columns :: "string frame \<Rightarrow> string frame" where
  "rename_columns df = \<lparr>columns = map map_column (columns df), rows = rows df\<rparr>"

text \<open>
  Lines 154 to 240: the amount of a cell in each of the three cases. A missing cell is
  filled with the text \<open>0\<close>; the text of the cell loses its commas, its \<open>--\<close> is replaced
  and it is trimmed; what is left is read as a float literal, and is zero when it is
  empty or malformed.
\<close>

definition fillna0 :: "cell \<Rightarrow> cell" where
  "fillna0 c = (if isna c then Str ''0'' else c)"

definition float_or_zero :: "string \<Rightarrow> pyfloat" where
  "float_or_zero s = (case py_float s of Some x \<Rightarrow> x | None \<Rightarrow> Finite 0)"

definition parse_both :: "pylib \<Rightarrow> cell \<Rightarrow> pyfloat" where
  "parse_both lib c =
     (let filled = fillna0 c;
          replaced = (if filled = Str ''--'' then Str ''0'' else filled);
          val = str_cell lib replaced;
          clean_val = strip (replace ''--'' ''0'' (replace '','' [] val))
      in if clean_val = [] \<or> clean_val = ''--'' then Finite 0 else float_or_zero clean_val)"

definition parse_debit :: "pylib \<Rightarrow> cell \<Rightarrow> pyfloat" where
  "parse_debit lib val =
     (let val_str = strip (replace ''--'' [] (replace '','' [] (str_cell lib val)))
      in if val_str = [] \<or> val_str = ''0'' then Finite 0 else float_or_zero val_str)"

definition parse_credit :: "string \<Rightarrow> pyfloat" where
  "parse_credit val =
     (let clean_val = strip (replace ''--'' ''0'' (replace '','' [] val))
      in if clean_val \<noteq> [] then float_or_zero clean_val else Finite 0)"

text \<open>
  With both columns the amount is credit minus debit; a label \<open>debit\<close> or \<open>credit\<close> that
  occurs twice makes the assignment of the cleaned column fail. With one of them alone,
  iterating a label that occurs twice runs over the labels themselves, and the values so
  obtained are refused unless there are as many as rows. The temporary columns of the
  code never clash with a column of the table, and are not kept here.
\<close>

definition reconcile_amount :: "pylib \<Rightarrow> string frame \<Rightarrow> error + string frame" where
  "reconcile_amount lib df =
     (if ''debit'' \<in> set (columns df) \<and> ''credit'' \<in> set (columns df)
      then (if length (positions df ''debit'') = 1 \<and> length (positions df ''credit'') = 1
            then (let debit_amount = map (parse_both lib) (column_at df (hd (positions df ''debit'')));
                      credit_amount = map (parse_both lib) (column_at df (hd (positions df ''credit'')));
                      amount = map (\<lambda>(c, d). Flt (fsub c d)) (zip credit_amount debit_amount)
                  in Inr (drop_columns (set_column df ''amount'' amount) [''debit'', ''credit'']))
            else Inl (ProcessingError ''debit/credit columns''))
      else if ''debit'' \<in> set (columns df)
      then (let debit_values =
                  (if length (positions df ''debit'') = 1
                   then map (\<lambda>c. parse_debit lib (fillna0 c)) (column_at df (hd (positions df ''debit'')))
                   else map (\<lambda>j. parse_debit lib (Str (columns df ! j))) (positions df ''debit''))
            in if length debit_values \<noteq> length (rows df) then Inl (ProcessingError ''debit column'')
               else Inr (drop_columns (set_column df ''amount'' (map (\<lambda>x. Flt (fneg x)) debit_values))
                           [''debit'']))
      else if ''credit'' \<in> set (columns df)
      then (let credit_values =
                  (if length (positions df ''credit'') = 1
                   then map (\<lambda>c. parse_credit (str_cell lib (fillna0 c)))
                          (column_at df (hd (positions df ''credit'')))
                   else map (\<lambda>j. parse_credit (columns df ! j)) (positions df ''credit''))
            in if length credit_values \<noteq> length (rows df) then Inl (ProcessingError ''credit column'')
               else Inr (drop_columns (set_column df ''amount'' (map Flt credit_values)) [''credit'']))
      else Inr df)"

text \<open>
  Lines 242 to 251: the three required columns, or the error that names the required and
  the available columns.
\<close>

definition required :: "string list" where
  "required = [''date'', ''description'', ''amount'']"

definition select_required :: "string frame \<Rightarrow> error + string frame" where
  "select_required df =
     (if \<not> list_all (\<lambda>c. c \<in> set (columns df)) required
      then Inl (MissingColumns required (columns df))
      else Inr (select_columns df (concat (map (positions df) required))))"

text \<open>
  Line 258. \<open>pd.to_datetime\<close> of a table, which is what a label \<open>date\<close> that occurs twice
  selects, raises \<open>ValueError\<close>.
\<close>

definition convert_date :: "pylib \<Rightarrow> string frame \<Rightarrow> error + string frame" where
  "convert_date lib df =
     (if length (positions df ''date'') = 1
      then (let col = column_at df (hd (positions df ''date''))
            in Inr (set_column df ''date''
                      (map (\<lambda>i. case to_datetime lib col i of Some t \<Rightarrow> Stamp t | None \<Rightarrow> NaT)
                         [0..<length col])))
      else Inl (PandasError ''ValueError''))"

text \<open>
  Lines 260 to 262: a row stays when none of its date, amount and description cells is
  missing and \<open>amount != 0\<close> holds. The comparison \<open>!= 0\<close> is false for a zero, integer or
  float, and for \<open>False\<close>, and true for every other cell. The label \<open>amount\<close> occurs once
  in a table that comes this far.
\<close>

fun ne_zero :: "cell \<Rightarrow> bool" where
  "ne_zero (Flt (Finite r)) = (r \<noteq> 0)"
| "ne_zero (IntC i) = (i \<noteq> 0)"
| "ne_zero (BoolC b) = b"
| "ne_zero _ = True"

definition valid_row :: "string frame \<Rightarrow> cell list \<Rightarrow> bool" where
  "valid_row df row =
     (list_all (\<lambda>j. \<not> isna (cell_at row j))
        (concat (map (positions df) [''date'', ''amount'', ''description'']))
      \<and> list_all (\<lambda>j. ne_zero (cell_at row j)) (positions df ''amount''))"

definition drop_invalid_rows :: "string frame \<Rightarrow> string frame" where
  "drop_invalid_rows df = \<lparr>columns = columns df, rows = filter (valid_row df) (rows df)\<rparr>"

text \<open>The pipeline of \<open>load_and_clean_expenses\<close>, in the order of the code.\<close>

definition load_input :: "pylib \<Rightarrow> string option \<Rightarrow> cell frame option \<Rightarrow> error + cell frame" where
  "load_input lib file_path df_override =
     (case df_override of
        Some df \<Rightarrow> Inr df
      | None \<Rightarrow> (case file_path of None \<Rightarrow> Inl NoCsvProvided | Some path \<Rightarrow> read_csv_path lib path))"

definition map_and_reconcile :: "pylib \<Rightarrow> cell frame \<Rightarrow> bool \<Rightarrow> error + string frame" where
  "map_and_reconcile lib df0 skip_header_detection =
     (let df1 = (if \<not> skip_header_detection then detect_and_skip_header lib df0 else df0);
          df2 = drop_empty_columns (dedupe_columns (standardize_columns lib df1))
      in case drop_unnamed_columns df2 of
           Inl e \<Rightarrow> Inl e
         | Inr df3 \<Rightarrow> reconcile_amount lib (rename_columns (drop_index_column df3)))"

definition clean_rows :: "pylib \<Rightarrow> string frame \<Rightarrow> error + string frame" where
  "clean_rows lib df =
     (case select_required df of
        Inl e \<Rightarrow> Inl e
      | Inr df1 \<Rightarrow>
          (case convert_date lib df1 of
             Inl e \<Rightarrow> Inl e
           | Inr df2 \<Rightarrow> Inr (drop_invalid_rows df2)))"

definition load_and_clean_expenses ::
  "pylib \<Rightarrow> string option \<Rightarrow> cell frame option \<Rightarrow> bool \<Rightarrow> error + string frame"
where
  "load_and_clean_expenses lib file_path df_override skip_header_detection =
     (case load_input lib file_path df_override of
        Inl e \<Rightarrow> Inl e
      | Inr df0 \<Rightarrow>
          (case map_and_reconcile lib df0 skip_header_detection of
             Inl e \<Rightarrow> Inl e
           | Inr df \<Rightarrow> clean_rows lib df))"

section \<open>Transaction classifier\<close>

definition CATEGORIES :: "(string \<times> string list) list" where
  "CATEGORIES =
     [(''Food & Dining'', [''restaurant'', ''shawarma'', ''kfc'', ''mcdonald'', ''eat'',
         ''shoprite'', ''ubereats'', ''food'', ''cafe'', ''pizza'', ''chicken'', ''burger'']),
      (''Transport'', [''uber'', ''bolt'', ''taxi'', ''fuel'', ''gas'', ''bus'', ''transport'',
         ''fare'']),
      (''Utilities'', [''electricity'', ''water'', ''internet'', ''dstv'', ''mtn'', ''data'',
         ''airtime'', ''nepa'', ''phcn'', ''ikedc'', ''ekedc'']),
      (''Shopping'', [''amazon'', ''jumia'', ''mall'', ''shop'', ''konga'', ''store'',
         ''market'']),
      (''Income'', [''salary'', ''payroll'', ''interest earned'', ''bonus'', ''credit'',
         ''deposit'', ''transfer in'', ''earned'']),
      (''Savings'', [''owealth'', ''auto-save'', ''auto save'',
         ''withdrawal(transaction payment)'', ''save'', ''investment'', ''balance'']),
      (''Entertainment'', [''netflix'', ''dstv'', ''cinema'', ''movie'', ''game'', ''spotify'']),
      (''Healthcare'', [''hospital'', ''pharmacy'', ''doctor'', ''clinic'', ''medical'',
         ''health'']),
      (''Other'', [])]"

text \<open>
  The two nested loops of \<open>categorize_transaction\<close>, over the keywords of a category and
  over the categories of the catalog, with the pair \<open>(best_cat, best_score)\<close> as state.
\<close>

fun scan_keywords ::
  "(string \<Rightarrow> string \<Rightarrow> real) \<Rightarrow> string \<Rightarrow> string \<Rightarrow> string list \<Rightarrow> string \<times> real \<Rightarrow> string \<times> real"
where
  "scan_keywords pr desc cat [] best = best"
| "scan_keywords pr desc cat (kw # kws) (best_cat, best_score) =
     (let score = pr (lower kw) desc
      in if score > best_score \<and> score > 70
         then scan_keywords pr desc cat kws (cat, score)
         else scan_keywords pr desc cat kws (best_cat, best_score))"

fun scan_categories ::
  "(string \<Rightarrow> string \<Rightarrow> real) \<Rightarrow> string \<Rightarrow> (string \<times> string list) list \<Rightarrow> string \<times> real
     \<Rightarrow> string \<times> real"
where
  "scan_categories pr desc [] best = best"
| "scan_categories pr desc ((cat, keywords) # rest) best =
     (if cat = ''Other'' then scan_categories pr desc rest best
      else scan_categories pr desc rest (scan_keywords pr desc cat keywords best))"

definition categorize_transaction :: "pylib \<Rightarrow> cell \<Rightarrow> string" where
  "categorize_transaction lib description =
     (let desc = lower (str_cell lib description)
      in fst (scan_categories (partial_ratio lib) desc CATEGORIES (''Other'', 0)))"

section \<open>Transactions\<close>

text \<open>
  A row of the cleaned, categorised table: the columns \<open>date\<close>, \<open>description\<close>,
  \<open>amount\<close> and \<open>category\<close>. The date is a timestamp in nanoseconds since the epoch,
  as in pandas.
\<close>

record txn =
  date :: int
  description :: string
  amount :: real
  category :: string

section \<open>Anomaly detection\<close>

text \<open>
  \<open>Series.mean()\<close> and \<open>Series.std()\<close>. pandas computes the standard deviation with one
  delta degree of freedom (the divisor is \<open>n - 1\<close>), so on fewer than two values the
  result is NaN, and so is the mean of no value. On more values the result is the double
  that the library computes.
\<close>

definition series_mean :: "pylib \<Rightarrow> real list \<Rightarrow> pyfloat" where
  "series_mean lib xs = (if xs = [] then NaN else mean_value lib xs)"

definition series_std :: "pylib \<Rightarrow> real list \<Rightarrow> pyfloat" where
  "series_std lib xs = (if length xs \<le> 1 then NaN else std_value lib xs)"

text \<open>
  The subtraction and the division of the z-score, as float operations: on finite
  operands the exact result is rounded; with a special value or a zero divisor they are
  \<^const>\<open>fsub\<close> and \<^const>\<open>fdiv\<close>.
\<close>

fun fl_sub :: "pylib \<Rightarrow> pyfloat \<Rightarrow> pyfloat \<Rightarrow> pyfloat" where
  "fl_sub lib (Finite a) (Finite b) = round_float lib (a - b)"
| "fl_sub lib a b = fsub a b"

fun fl_div :: "pylib \<Rightarrow> pyfloat \<Rightarrow> pyfloat \<Rightarrow> pyfloat" where
  "fl_div lib (Finite a) (Finite b) =
     (if b = 0 then fdiv (Finite a) (Finite b) else round_float lib (a / b))"
| "fl_div lib a b = fdiv a b"

definition detect_anomalies :: "pylib \<Rightarrow> 'r list \<Rightarrow> ('r \<Rightarrow> real) \<Rightarrow> real \<Rightarrow> bool list" where
  "detect_anomalies lib df column threshold =
     (let mean = series_mean lib (map column df);
          std = series_std lib (map column df)
      in if feq std (Finite 0) then replicate (length df) False
         else map (\<lambda>t. fgt (fabs (fl_div lib (fl_sub lib (Finite (column t)) mean) std))
                            (Finite threshold)) df)"

section \<open>Category statistics\<close>







section \<open>Net flow\<close>

record net_flow =
  income :: real
  expenses :: real
  net :: real
  savings_rate :: real

definition calculate_net_flow :: "txn list \<Rightarrow> net_flow" where
  "calculate_net_flow df =
     (let income = sum_list (map amount (filter (\<lambda>t. amount t > 0) df));
          expenses = \<bar>sum_list (map amount (filter (\<lambda>t. amount t < 0) df))\<bar>;
          net = income - expenses
      in \<lparr>income = income, expenses = expenses, net = net,
          savings_rate = (if income > 0 then net / income * 100 else 0)\<rparr>)"


section \<open>The application's pipeline\<close>

text \<open>
  The uploaded file is a buffer with a read position. \<open>file.seek(0)\<close> moves the position
  to the start, and \<open>pd.read_csv(file, ...)\<close> reads the text from the position to the end
  of the buffer and leaves the position there.
\<close>

record buffer =
  content :: string
  pos :: nat

definition seek :: "buffer \<Rightarrow> nat \<Rightarrow> buffer" where
  "seek f n = f\<lparr>pos := n\<rparr>"

definition read_file :: "pylib \<Rightarrow> buffer \<Rightarrow> nat option \<Rightarrow> (error + cell frame) \<times> buffer" where
  "read_file lib f skiprows =
     (read_csv lib (drop (pos f) (content f)) skiprows, f\<lparr>pos := length (content f)\<rparr>)"

text \<open>
  The value of an amount cell as a number, for the statistics of \<open>detect_anomalies\<close> on the
  cleaned table. On a column that holds text, \<open>mean()\<close> raises \<open>TypeError\<close>; the model
  raises it for a timestamp too, which \<open>read_csv\<close> never yields. With an infinite amount
  the standard deviation is NaN and no row is flagged.
\<close>

fun is_number :: "cell \<Rightarrow> bool" where
  "is_number (Flt x) = True"
| "is_number (IntC i) = True"
| "is_number (BoolC b) = True"
| "is_number _ = False"

fun is_finite :: "cell \<Rightarrow> bool" where
  "is_finite (Flt (Finite r)) = True"
| "is_finite (IntC i) = True"
| "is_finite (BoolC b) = True"
| "is_finite _ = False"

fun number_of :: "cell \<Rightarrow> real" where
  "number_of (Flt (Finite r)) = r"
| "number_of (IntC i) = of_int i"
| "number_of (BoolC b) = (if b then 1 else 0)"
| "number_of _ = 0"

definition anomaly_column :: "pylib \<Rightarrow> string frame \<Rightarrow> error + cell list" where
  "anomaly_column lib df =
     (let j = hd (positions df ''amount'');
          amounts = column_at df j
      in if \<not> list_all is_number amounts then Inl (PandasError ''TypeError'')
         else if list_all is_finite amounts
         then Inr (map BoolC (detect_anomalies lib (rows df) (\<lambda>row. number_of (cell_at row j)) 3))
         else Inr (map (\<lambda>c. BoolC False) amounts))"

text \<open>
  The three columns that \<open>process_data\<close> adds to a cleaned table that has rows. With a
  label \<open>description\<close> that occurs twice, \<open>apply\<close> runs over the columns and the assignment
  of its result raises \<open>ValueError\<close>.
\<close>

definition annotate :: "pylib \<Rightarrow> string frame \<Rightarrow> error + string frame" where
  "annotate lib df_clean =
     (if rows df_clean = [] then Inr df_clean
      else if length (positions df_clean ''description'') \<noteq> 1 then Inl (PandasError ''ValueError'')
      else
        (let category = map (\<lambda>c. Str (categorize_transaction lib c))
                          (column_at df_clean (hd (positions df_clean ''description'')));
             df1 = set_column df_clean ''category'' category
         in case anomaly_column lib df1 of
              Inl e \<Rightarrow> Inl e
            | Inr is_anomaly \<Rightarrow>
                (let df2 = set_column df1 ''is_anomaly'' is_anomaly;
                     month = map (\<lambda>c. case c of Stamp t \<Rightarrow> Str (period_str lib t) | _ \<Rightarrow> Str ''NaT'')
                               (column_at df2 (hd (positions df2 ''date'')))
                 in Inr (set_column df2 ''month'' month))))"

definition read_raw :: "pylib \<Rightarrow> buffer \<Rightarrow> int option \<Rightarrow> bool \<Rightarrow> (error + cell frame) \<times> buffer" where
  "read_raw lib file header_row_idx manual_mode =
     (case (if manual_mode then header_row_idx else None) of
        Some h \<Rightarrow>
          (case read_file lib (seek file 0) (Some (nat h)) of
             (Inl e, file') \<Rightarrow> (Inl e, file')
           | (Inr df_raw, file') \<Rightarrow>
               (if columns df_raw = [] then (Inl (PandasError ''IndexError''), file')
                else if sublist ''unnamed'' (lower (str_cell lib (hd (columns df_raw))))
                then (Inr (select_columns df_raw [1..<length (columns df_raw)]), file')
                else (Inr df_raw, file')))
      | None \<Rightarrow> read_file lib (seek file 0) None)"

definition process_data ::
  "pylib \<Rightarrow> buffer \<Rightarrow> int option \<Rightarrow> bool \<Rightarrow> (error + string frame) \<times> buffer"
where
  "process_data lib file header_row_idx manual_mode =
     (case read_raw lib file header_row_idx manual_mode of
        (Inl e, file') \<Rightarrow> (Inl e, file')
      | (Inr df_raw, file') \<Rightarrow>
          (case load_and_clean_expenses lib None (Some df_raw) manual_mode of
             Inl e \<Rightarrow> (Inl e, file')
           | Inr df_clean \<Rightarrow> (annotate lib df_clean, file')))"

section \<open>Reference statistics\<close>

text \<open>
  The arithmetic mean and the two standard deviations in exact arithmetic, for stating
  what the detector computes: \<open>sample_std\<close> divides by \<open>n - 1\<close>, \<open>population_std\<close> by \<open>n\<close>.
\<close>

definition mean_r :: "real list \<Rightarrow> real" where
  "mean_r xs = sum_list xs / real (length xs)"

definition sum_sq_dev :: "real list \<Rightarrow> real" where
  "sum_sq_dev xs = sum_list (map (\<lambda>x. (x - mean_r xs)\<^sup>2) xs)"

definition sample_std :: "real list \<Rightarrow> real" where
  "sample_std xs = sqrt (sum_sq_dev xs / real (length xs - 1))"



section \<open>The header keywords in the words of the specification\<close>

definition spec_header_keywords :: "string list" where
  "spec_header_keywords =
     [''transaction'', ''date'', ''description'', ''debit'', ''credit'', ''narration'']"

section \<open>The classifier in the words of the specification\<close>

text \<open>
  Every (category, keyword) pair of the catalog outside "Other", in iteration order, with
  its score against the case-folded description; the qualifying pairs are those above 70;
  the winner is the first qualifying pair that reaches the largest qualifying score.
\<close>

definition scored_pairs ::
  "(string \<Rightarrow> string \<Rightarrow> real) \<Rightarrow> string \<Rightarrow> (string \<times> string list) list \<Rightarrow> (string \<times> real) list"
where
  "scored_pairs pr desc cats =
     concat (map (\<lambda>(cat, keywords).
                    if cat = ''Other'' then []
                    else map (\<lambda>kw. (cat, pr (lower kw) desc)) keywords) cats)"

definition spec_categorize :: "(string \<times> real) list \<Rightarrow> string" where
  "spec_categorize pairs =
     (let qualifying = filter (\<lambda>p. snd p > 70) pairs
      in if qualifying = [] then ''Other''
         else (case find (\<lambda>p. snd p = Max (set (map snd qualifying))) qualifying of
                 Some p \<Rightarrow> fst p
               | None \<Rightarrow> ''Other''))"

text \<open>
  One iteration of the classifier's inner loop on a scored pair, and the first pair of
  largest score of a list, for the proofs.
\<close>

definition step :: "string \<times> real \<Rightarrow> string \<times> real \<Rightarrow> string \<times> real" where
  "step best p = (if snd p > snd best \<and> snd p > 70 then p else best)"

fun best_of :: "(string \<times> real) list \<Rightarrow> (string \<times> real) option" where
  "best_of [] = None"
| "best_of (p # ps) =
     (case best_of ps of
        None \<Rightarrow> Some p
      | Some q \<Rightarrow> if snd q > snd p then Some q else Some p)"

section \<open>Example transaction sets\<close>

definition mk_txn :: "real \<Rightarrow> txn" where
  "mk_txn a = \<lparr>date = 0, description = ''x'', amount = a, category = ''Other''\<rparr>"



text \<open>Three amounts of one tenth: the double nearest to 0.1.\<close>

definition tenth :: real where
  "tenth = 3602879701896397 / 2 ^ 55"

definition tenth_df :: "txn list" where
  "tenth_df = map mk_txn [tenth, tenth, tenth]"

definition mixed_df :: "txn list" where
  "mixed_df = map mk_txn [50000, -12000, -8000, 250]"



text \<open>
  A stand-in for rapidfuzz in the examples: a keyword that occurs in the description
  scores 100, any other scores 0.
\<close>

definition demo_ratio :: "string \<Rightarrow> string \<Rightarrow> real" where
  "demo_ratio kw desc = (if sublist kw desc then 100 else 0)"

text \<open>A statement export: two rows of bank data above the header row, two rows below.\<close>

definition statement_df :: "cell frame" where
  "statement_df =
     \<lparr>columns = [Str ''Unnamed: 0'', Str ''Unnamed: 1'', Str ''Unnamed: 2'', Str ''Unnamed: 3''],
      rows = [[Str ''Account Name'', Str ''ADA OBI'', Flt NaN, Flt NaN],
              [Flt NaN, Flt NaN, Flt NaN, Flt NaN],
              [Str ''Trans. Date'', Str ''Description'', Str ''Debit'', Str ''Credit''],
              [Str ''2024-01-15'', Str ''Uber Trip Lagos'', Str ''1,000'', Str ''--''],
              [Str ''2024-02-01'', Str ''Salary'', Str ''--'', Str ''2,500'']]\<rparr>"

text \<open>A table whose first row mentions a transfer and whose second row is the header.\<close>

definition transfer_df :: "cell frame" where
  "transfer_df =
     \<lparr>columns = [Str ''Unnamed: 0'', Str ''Unnamed: 1''],
      rows = [[Str ''Funds Transfer Summary'', Flt NaN],
              [Str ''Date'', Str ''Amount''],
              [Str ''2024-01-15'', IntC 5]]\<rparr>"

text \<open>A table without any header row.\<close>

definition plain_df :: "cell frame" where
  "plain_df = \<lparr>columns = [Str ''a'', Str ''b''], rows = [[Str ''x'', IntC 1], [Str ''y'', IntC 2]]\<rparr>"

text \<open>Debit and credit cells as numbers, as text with a thousands separator, and blank.\<close>

definition recon_df :: "string frame" where
  "recon_df =
     \<lparr>columns = [''debit'', ''credit''],
      rows = [[IntC 1000, IntC 0],
              [IntC 0, IntC 1000],
              [Str ''--'', Str ''2,500''],
              [Str ''1,250.50'', Flt NaN]]\<rparr>"

text \<open>
  A table with its header in place: one good row, one with neither debit nor credit, one
  without a description, one with a date that does not parse, and one good row again.
\<close>

definition noisy_df :: "cell frame" where
  "noisy_df =
     \<lparr>columns = [Str ''Trans Date'', Str ''Narration'', Str ''Debit'', Str ''Credit''],
      rows = [[Str ''2024-01-15'', Str ''Uber Trip Lagos'', Str ''1,000'', Str ''--''],
              [Str ''2024-01-15'', Str ''Reversal'', Str ''--'', Str ''--''],
              [Str ''2024-01-15'', Flt NaN, Str ''300'', Str ''--''],
              [Str ''pending'', Str ''Shoprite'', Str ''450'', Str ''--''],
              [Str ''2024-02-01'', Str ''Salary'', Str ''--'', Str ''2,500'']]\<rparr>"

text \<open>
  A table with an amount column and neither debit nor credit: the amounts are text, as
  \<open>read_csv\<close> reads a column in which an amount is written with a thousands separator.
\<close>

definition text_amount_df :: "cell frame" where
  "text_amount_df =
     \<lparr>columns = [Str ''Trans Date'', Str ''Description'', Str ''Amount''],
      rows = [[Str ''2024-01-15'', Str ''Opening balance'', Str ''0''],
              [Str ''2024-02-01'', Str ''Salary'', Str ''2,500'']]\<rparr>"

text \<open>A table built by hand, with a description that is the empty text.\<close>

definition blank_text_df :: "cell frame" where
  "blank_text_df =
     \<lparr>columns = [Str ''Trans Date'', Str ''Description'', Str ''Amount''],
      rows = [[Str ''2024-01-15'', Str [], Flt (Finite 40)]]\<rparr>"

text \<open>A table without a date column.\<close>

definition undated_df :: "cell frame" where
  "undated_df =
     \<lparr>columns = [Str ''Details'', Str ''Debit''],
      rows = [[Str ''Uber Trip Lagos'', Str ''1,000'']]\<rparr>"

text \<open>
  A stand-in for the library in the examples: a finite float prints as \<open><float>\<close>, a
  timestamp as \<open><timestamp>\<close>; a timestamp lies in January or February 2024; a date
  string is read if it is one of two fixed days; a keyword scores as \<open>demo_ratio\<close>;
  reading a path fails; reading a buffer fails on an empty text, gives the statement
  export when no rows are skipped and the table with its header in place otherwise; the
  mean, the standard deviation and the arithmetic are exact, as the doubles are on the
  example sets, whose intermediate values are small integers and quarters.
\<close>

definition demo_lib :: pylib where
  "demo_lib =
     \<lparr>float_str = (\<lambda>r. ''<float>''),
      stamp_str = (\<lambda>t. ''<timestamp>''),
      period_str = (\<lambda>t. if t < 1706745600000000000 then ''2024-01'' else ''2024-02''),
      to_datetime = (\<lambda>col i. case col ! i of
                        Str s \<Rightarrow> (if s = ''2024-01-15'' then Some 1705276800000000000
                                  else if s = ''2024-02-01'' then Some 1706745600000000000
                                  else None)
                      | Stamp t \<Rightarrow> Some t
                      | _ \<Rightarrow> None),
      partial_ratio = demo_ratio,
      read_csv_path = (\<lambda>path. Inl (PandasError ''FileNotFoundError'')),
      read_csv = (\<lambda>text skiprows.
                    if text = [] then Inl (PandasError ''EmptyDataError'')
                    else (case skiprows of None \<Rightarrow> Inr statement_df | Some n \<Rightarrow> Inr noisy_df)),
      mean_value = (\<lambda>xs. Finite (mean_r xs)),
      std_value = (\<lambda>xs. Finite (sample_std xs)),
      round_float = Finite\<rparr>"

text \<open>
  The doubles of IEEE arithmetic on three amounts of one tenth: their sum from left to
  right divided by 3 is not one tenth, the difference of an amount and this mean is
  exact, the standard deviation is not zero, and the quotient of the z-score is rounded.
\<close>

definition tenth_lib :: pylib where
  "tenth_lib =
     demo_lib
       \<lparr>mean_value := (\<lambda>xs. Finite (7205759403792795 / 2 ^ 56)),
        std_value := (\<lambda>xs. Finite (2757880273211543 / 2 ^ 107)),
        round_float := (\<lambda>r. if r = - (2 ^ 51 / 2757880273211543)
                             then Finite (- (7354347395230783 / 2 ^ 53)) else Finite r)\<rparr>"

definition upload :: buffer where
  "upload = \<lparr>content = ''Account Name,ADA OBI ...'', pos = 0\<rparr>"

section \<open>Properties of the anomaly detector\<close>

lemma series_std_single: "series_std lib [x] = NaN"
  by (simp add: series_std_def)

lemma fdiv_NaN: "fdiv x NaN = NaN"
  by (cases x) simp_all

lemma fl_div_NaN: "fl_div lib x NaN = NaN"
  by (cases x) simp_all

text \<open>
  C10. On a set of exactly one transaction the standard deviation is NaN, not zero, so the
  zero guard is not taken; the z-score is NaN, its comparison with the threshold is false,
  and the single row is not flagged, whatever the threshold.
\<close>

theorem detect_anomalies_single:
  "series_std lib (map amount [t]) = NaN
   \<and> feq (series_std lib (map amount [t])) (Finite 0) = False
   \<and> fgt (fabs (fl_div lib (fl_sub lib (Finite (amount t)) (series_mean lib (map amount [t])))
                        (series_std lib (map amount [t])))) (Finite threshold) = False
   \<and> detect_anomalies lib [t] amount threshold = [False]"
  by (simp add: detect_anomalies_def series_std_def fl_div_NaN fdiv_NaN)


















text \<open>
  With the doubles that floating point gives on three amounts of one tenth, the standard
  deviation is not zero, the guard for equal amounts is not taken, and at the threshold
  one half every row is flagged.
\<close>

lemma equal_amounts_flagged:
  "detect_anomalies tenth_lib tenth_df amount (1 / 2) = [True, True, True]"
proof -
  have d: "tenth - 7205759403792795 / 2 ^ 56 = - (1 / 2 ^ 56)"
    by (simp add: tenth_def)
  have n: "- (1 / 2 ^ 56) \<noteq> - (2 ^ 51 / (2757880273211543 :: real))"
    by simp
  have q: "- (1 / 2 ^ 56) / (2757880273211543 / 2 ^ 107) = - (2 ^ 51 / (2757880273211543 :: real))"
    by simp
  have s: "fl_sub tenth_lib (Finite tenth) (Finite (7205759403792795 / 2 ^ 56))
             = Finite (- (1 / 2 ^ 56))"
    unfolding fl_sub.simps d using n by (simp add: tenth_lib_def)
  have z: "fl_div tenth_lib (Finite (- (1 / 2 ^ 56))) (Finite (2757880273211543 / 2 ^ 107))
             = Finite (- (7354347395230783 / 2 ^ 53))"
    unfolding fl_div.simps q by (simp add: tenth_lib_def)
  have m: "series_mean tenth_lib (map amount tenth_df) = Finite (7205759403792795 / 2 ^ 56)"
    "series_std tenth_lib (map amount tenth_df) = Finite (2757880273211543 / 2 ^ 107)"
    by (simp_all add: series_mean_def series_std_def tenth_lib_def tenth_df_def)
  have flag: "fgt (fabs (fl_div tenth_lib
                           (fl_sub tenth_lib (Finite tenth) (Finite (7205759403792795 / 2 ^ 56)))
                           (Finite (2757880273211543 / 2 ^ 107)))) (Finite (1 / 2))"
    unfolding s z by simp
  have guard: "\<not> feq (Finite (2757880273211543 / 2 ^ 107)) (Finite 0)"
    by simp
  show ?thesis
    unfolding detect_anomalies_def m Let_def
    using flag guard by (simp add: tenth_df_def mk_txn_def)
qed

section \<open>Properties of the net flow\<close>

lemma sum_list_filter_pos:
  "sum_list (map f (filter (\<lambda>t. f t > 0) xs)) = (\<Sum>t\<leftarrow>xs. if f t > 0 then f t else (0::real))"
  by (induction xs) auto

lemma sum_list_filter_neg:
  "sum_list (map f (filter (\<lambda>t. f t < 0) xs)) = (\<Sum>t\<leftarrow>xs. if f t < 0 then f t else (0::real))"
  by (induction xs) auto

lemma sum_list_pos_nonneg: "0 \<le> (\<Sum>t\<leftarrow>xs. if f t > 0 then f t else (0::real))"
  by (rule sum_list_nonneg) auto

text \<open>
  C5. The income is the sum of the positive amounts, the expenses the absolute value of
  the sum of the negative amounts, the net their difference, and the savings rate
  \<open>net / income * 100\<close> when the income is positive and 0 otherwise; so the net is the
  income minus the expenses and neither the income nor the expenses is negative.
\<close>

theorem calculate_net_flow_correct:
  "income (calculate_net_flow df) = sum_list (filter (\<lambda>a. a > 0) (map amount df))
   \<and> expenses (calculate_net_flow df) = \<bar>sum_list (filter (\<lambda>a. a < 0) (map amount df))\<bar>
   \<and> net (calculate_net_flow df)
       = income (calculate_net_flow df) - expenses (calculate_net_flow df)
   \<and> savings_rate (calculate_net_flow df)
       = (if income (calculate_net_flow df) > 0
          then net (calculate_net_flow df) / income (calculate_net_flow df) * 100 else 0)
   \<and> 0 \<le> income (calculate_net_flow df) \<and> 0 \<le> expenses (calculate_net_flow df)"
proof -
  have f: "filter (\<lambda>a. a > 0) (map amount df) = map amount (filter (\<lambda>t. amount t > 0) df)"
          "filter (\<lambda>a. a < 0) (map amount df) = map amount (filter (\<lambda>t. amount t < 0) df)"
    by (simp_all add: filter_map comp_def)
  have "0 \<le> sum_list (map amount (filter (\<lambda>t. amount t > 0) df))"
    unfolding sum_list_filter_pos by (rule sum_list_pos_nonneg)
  then show ?thesis
    by (simp add: calculate_net_flow_def Let_def f)
qed

theorem calculate_net_flow_example:
  "calculate_net_flow mixed_df
     = \<lparr>income = 50250, expenses = 20000, net = 30250, savings_rate = 3025000 / 50250\<rparr>"
  by (simp add: calculate_net_flow_def mixed_df_def mk_txn_def)

section \<open>Properties of the classifier\<close>

lemma scan_keywords_foldl:
  "scan_keywords pr desc cat kws best
     = foldl step best (map (\<lambda>kw. (cat, pr (lower kw) desc)) kws)"
  by (induction kws arbitrary: best) (auto simp: step_def Let_def split: prod.splits)

lemma scan_categories_foldl:
  "scan_categories pr desc cats best = foldl step best (scored_pairs pr desc cats)"
proof (induction cats arbitrary: best)
  case Nil
  then show ?case by (simp add: scored_pairs_def)
next
  case (Cons c cats)
  obtain cat kws where c: "c = (cat, kws)" by (cases c)
  show ?case
    using Cons.IH[of best] Cons.IH[of "scan_keywords pr desc cat kws best"]
    by (simp add: c scored_pairs_def scan_keywords_foldl)
qed

lemma foldl_step_filter:
  "foldl step best ps = foldl step best (filter (\<lambda>p. snd p > 70) ps)"
  by (induction ps arbitrary: best) (auto simp: step_def)

lemma foldl_step_best_of:
  "list_all (\<lambda>p. snd p > 70) q \<Longrightarrow>
   foldl step best q
     = (case best_of q of None \<Rightarrow> best | Some m \<Rightarrow> if snd m > snd best then m else best)"
proof (induction q arbitrary: best)
  case Nil
  then show ?case by simp
next
  case (Cons p q)
  then show ?case
    by (cases "best_of q") (auto simp: step_def)
qed

lemma best_of_None: "best_of q = None \<longleftrightarrow> q = []"
  by (cases q) (auto split: option.splits)

lemma best_of_find:
  "q \<noteq> [] \<Longrightarrow> best_of q = find (\<lambda>p. snd p = Max (set (map snd q))) q"
proof (induction q)
  case Nil
  then show ?case by simp
next
  case (Cons p q)
  show ?case
  proof (cases "q = []")
    case True
    then show ?thesis by simp
  next
    case False
    let ?M = "Max (set (map snd q))"
    have ih: "best_of q = find (\<lambda>p. snd p = ?M) q"
      using Cons.IH False by simp
    obtain m where m: "best_of q = Some m"
      using False best_of_None by (cases "best_of q") auto
    have fin: "finite (set (map snd q))" "set (map snd q) \<noteq> {}"
      using False by auto
    have mM: "snd m = ?M"
      using m ih by (auto dest: find_Some_iff[THEN iffD1])
    have Max: "Max (set (map snd (p # q))) = max (snd p) ?M"
      using fin by simp
    show ?thesis
    proof (cases "snd m > snd p")
      case True
      then have "max (snd p) ?M = ?M" using mM by simp
      then show ?thesis using True m ih Max mM by auto
    next
      case F: False
      then have "max (snd p) ?M = snd p" using mM by simp
      then show ?thesis using F m Max by auto
    qed
  qed
qed

lemma best_of_snd:
  "best_of q = Some m \<Longrightarrow> list_all (\<lambda>p. snd p > 70) q \<Longrightarrow> snd m > 70"
  by (induction q arbitrary: m) (auto split: option.splits if_splits)

lemma foldl_step_spec:
  "fst (foldl step (''Other'', 0) pairs) = spec_categorize pairs"
proof -
  let ?q = "filter (\<lambda>p. snd p > 70) pairs"
  have all: "list_all (\<lambda>p. snd p > 70) ?q"
    by (simp add: list_all_iff)
  have 1: "foldl step (''Other'', 0) pairs
      = (case best_of ?q of None \<Rightarrow> (''Other'', 0)
         | Some m \<Rightarrow> if snd m > snd (''Other'', 0::real) then m else (''Other'', 0))"
    by (subst foldl_step_filter) (rule foldl_step_best_of[OF all])
  show ?thesis
  proof (cases "?q = []")
    case True
    then show ?thesis using 1 by (simp add: spec_categorize_def)
  next
    case False
    then obtain m where m: "best_of ?q = Some m"
      using best_of_None by (cases "best_of ?q") auto
    have "snd m > 70"
      using best_of_snd[OF m all] .
    then have "foldl step (''Other'', 0) pairs = m"
      using 1 m by simp
    moreover have "find (\<lambda>p. snd p = Max (set (map snd ?q))) ?q = Some m"
      using best_of_find[OF False] m by simp
    ultimately show ?thesis
      using False by (simp add: spec_categorize_def Let_def)
  qed
qed

text \<open>
  C7. For a description string, the classifier returns the category of the first pair, in
  the iteration order of the catalog without "Other", that reaches the largest score
  among the pairs scoring above 70 against the case-folded description, and "Other" when
  no pair scores above 70. The score is \<open>fuzz.partial_ratio\<close>, a parameter.
\<close>

theorem categorize_transaction_spec:
  "categorize_transaction lib (Str s)
     = spec_categorize (scored_pairs (partial_ratio lib) (lower s) CATEGORIES)"
  by (simp add: categorize_transaction_def scan_categories_foldl foldl_step_spec)

section \<open>Properties of the category statistics\<close>












section \<open>Properties of the header normalizer\<close>

lemma scan_header_find:
  "scan_header lib df idxs
     = (case find (\<lambda>i. has_keyword header_keywords (row_str lib (rows df ! i))) idxs of
          None \<Rightarrow> df
        | Some i \<Rightarrow> promote_header df i)"
  by (induction idxs) auto

lemma find_upt_first:
  assumes "i < n" "P i" "\<forall>j<i. \<not> P j"
  shows "find P [0..<n] = Some i"
  using assms by (auto simp: find_Some_iff)

lemma find_upt_none: "\<forall>i<n. \<not> P i \<Longrightarrow> find P [0..<n] = None"
  by (auto simp: find_None_iff)

lemma detect_first:
  assumes "i < min 20 (length (rows df))"
    and "has_keyword header_keywords (row_str lib (rows df ! i))"
    and "\<forall>j<i. \<not> has_keyword header_keywords (row_str lib (rows df ! j))"
  shows "detect_and_skip_header lib df = promote_header df i"
  using find_upt_first[of i "min 20 (length (rows df))"
      "\<lambda>i. has_keyword header_keywords (row_str lib (rows df ! i))"] assms
  by (simp add: detect_and_skip_header_def scan_header_find Let_def)

lemma detect_none:
  assumes "\<forall>j < min 20 (length (rows df)).
             \<not> has_keyword header_keywords (row_str lib (rows df ! j))"
  shows "detect_and_skip_header lib df = df"
  using find_upt_none[of "min 20 (length (rows df))"
      "\<lambda>i. has_keyword header_keywords (row_str lib (rows df ! i))"] assms
  by (simp add: detect_and_skip_header_def scan_header_find Let_def)

lemma statement_row0: "row_str demo_lib (rows statement_df ! 0) = ''account name ada obi''"
  by (simp add: row_str_def statement_df_def lower_def lower_char_def)

lemma statement_row1: "row_str demo_lib (rows statement_df ! 1) = []"
  by (simp add: row_str_def statement_df_def lower_def lower_char_def)

lemma statement_row2:
  "row_str demo_lib (rows statement_df ! 2) = ''trans. date description debit credit''"
  by (simp add: row_str_def statement_df_def lower_def lower_char_def)

lemma no_keyword_row0: "\<not> has_keyword header_keywords ''account name ada obi''"
  by (simp add: has_keyword_def header_keywords_def sublist_code)

lemma no_keyword_row1: "\<not> has_keyword header_keywords []"
  by (simp add: has_keyword_def header_keywords_def sublist_code)

lemma keyword_row2: "has_keyword header_keywords ''trans. date description debit credit''"
  by (simp add: has_keyword_def header_keywords_def sublist_code)

lemma statement_header:
  "detect_and_skip_header demo_lib statement_df = promote_header statement_df 2"
proof -
  have "2 < min 20 (length (rows statement_df))"
    by (simp add: statement_df_def)
  moreover have "\<forall>j<2. \<not> has_keyword header_keywords (row_str demo_lib (rows statement_df ! j))"
    using statement_row0 statement_row1 no_keyword_row0 no_keyword_row1
    by (auto simp: less_Suc_eq numeral_2_eq_2)
  ultimately show ?thesis
    using statement_row2 keyword_row2 by (intro detect_first) auto
qed

lemma transfer_row0: "row_str demo_lib (rows transfer_df ! 0) = ''funds transfer summary''"
  by (simp add: row_str_def transfer_df_def lower_def lower_char_def)

lemma transfer_row1: "row_str demo_lib (rows transfer_df ! 1) = ''date amount''"
  by (simp add: row_str_def transfer_df_def lower_def lower_char_def)

lemma transfer_keyword: "has_keyword header_keywords ''funds transfer summary''"
  by (simp add: has_keyword_def header_keywords_def sublist_code)

lemma transfer_no_spec_keyword: "\<not> has_keyword spec_header_keywords ''funds transfer summary''"
  by (simp add: has_keyword_def spec_header_keywords_def sublist_code)

lemma date_spec_keyword: "has_keyword spec_header_keywords ''date amount''"
  by (simp add: has_keyword_def spec_header_keywords_def sublist_code)

lemma transfer_header:
  "detect_and_skip_header demo_lib transfer_df = promote_header transfer_df 0"
proof -
  have "0 < min 20 (length (rows transfer_df))"
    by (simp add: transfer_df_def)
  then show ?thesis
    using transfer_row0 transfer_keyword by (intro detect_first) auto
qed

text \<open>
  C6, as stated, fails: the code's first keyword is \<open>trans\<close>, not \<open>transaction\<close>. In a
  table whose first row reads "Funds Transfer Summary" and whose second row reads
  "Date, Amount", the first row that contains a keyword of the claim is the second, but
  the code takes the first row as the header.
\<close>

theorem detect_and_skip_header_keyword_counterexample:
  "\<not> has_keyword spec_header_keywords (row_str demo_lib (rows transfer_df ! 0))
   \<and> has_keyword spec_header_keywords (row_str demo_lib (rows transfer_df ! 1))
   \<and> detect_and_skip_header demo_lib transfer_df \<noteq> promote_header transfer_df 1
   \<and> detect_and_skip_header demo_lib transfer_df
       = \<lparr>columns = [Str ''Funds Transfer Summary'', Flt NaN],
          rows = [[Str ''Date'', Str ''Amount''], [Str ''2024-01-15'', IntC 5]]\<rparr>"
proof -
  have a: "\<not> has_keyword spec_header_keywords (row_str demo_lib (rows transfer_df ! 0))"
    unfolding transfer_row0 by (rule transfer_no_spec_keyword)
  have b: "has_keyword spec_header_keywords (row_str demo_lib (rows transfer_df ! 1))"
    unfolding transfer_row1 by (rule date_spec_keyword)
  have c: "promote_header transfer_df 0
             = \<lparr>columns = [Str ''Funds Transfer Summary'', Flt NaN],
                rows = [[Str ''Date'', Str ''Amount''], [Str ''2024-01-15'', IntC 5]]\<rparr>"
    by (simp add: promote_header_def transfer_df_def)
  have d: "promote_header transfer_df 0 \<noteq> promote_header transfer_df 1"
    by (simp add: promote_header_def transfer_df_def)
  show ?thesis
    using a b c d by (simp add: transfer_header)
qed

text \<open>
  C6, amended. With the keywords trans, date, description, debit, credit and narration:
  the first row among the first 20 whose text (its cells that are not missing, in lower
  case, joined by spaces) contains a keyword becomes the header, its cells the column
  labels, and only the rows below it are kept; if none of these rows contains a keyword,
  the table is returned unchanged.
\<close>

theorem detect_and_skip_header_first_match:
  "header_keywords = [''trans'', ''date'', ''description'', ''debit'', ''credit'', ''narration'']
   \<and> (i < min 20 (length (rows df))
        \<and> has_keyword header_keywords (row_str lib (rows df ! i))
        \<and> (\<forall>j<i. \<not> has_keyword header_keywords (row_str lib (rows df ! j)))
       \<longrightarrow> detect_and_skip_header lib df
             = \<lparr>columns = rows df ! i, rows = drop (Suc i) (rows df)\<rparr>)
   \<and> ((\<forall>j < min 20 (length (rows df)).
          \<not> has_keyword header_keywords (row_str lib (rows df ! j)))
       \<longrightarrow> detect_and_skip_header lib df = df)"
  using detect_first[of i df lib] detect_none[of df lib]
  by (simp add: promote_header_def header_keywords_def)

lemma plain_no_keyword:
  "\<forall>j < min 20 (length (rows plain_df)).
     \<not> has_keyword header_keywords (row_str demo_lib (rows plain_df ! j))"
  by (simp add: plain_df_def less_Suc_eq numeral_2_eq_2 row_str_def lower_def lower_char_def
        has_keyword_def header_keywords_def sublist_code string_of_int_def string_of_nat.simps
        digit_char_def all_conj_distrib)

theorem detect_and_skip_header_first_match_witness:
  "2 < min 20 (length (rows statement_df))
   \<and> has_keyword header_keywords (row_str demo_lib (rows statement_df ! 2))
   \<and> \<not> has_keyword header_keywords (row_str demo_lib (rows statement_df ! 0))
   \<and> \<not> has_keyword header_keywords (row_str demo_lib (rows statement_df ! 1))
   \<and> detect_and_skip_header demo_lib statement_df
       = \<lparr>columns = [Str ''Trans. Date'', Str ''Description'', Str ''Debit'', Str ''Credit''],
          rows = [[Str ''2024-01-15'', Str ''Uber Trip Lagos'', Str ''1,000'', Str ''--''],
                  [Str ''2024-02-01'', Str ''Salary'', Str ''--'', Str ''2,500'']]\<rparr>
   \<and> detect_and_skip_header demo_lib plain_df = plain_df"
proof -
  have len: "2 < min 20 (length (rows statement_df))"
    by (simp add: statement_df_def)
  have before: "\<forall>j<2. \<not> has_keyword header_keywords (row_str demo_lib (rows statement_df ! j))"
    using statement_row0 statement_row1 no_keyword_row0 no_keyword_row1
    by (auto simp: less_Suc_eq numeral_2_eq_2)
  have at: "has_keyword header_keywords (row_str demo_lib (rows statement_df ! 2))"
    using statement_row2 keyword_row2 by simp
  have "detect_and_skip_header demo_lib statement_df
          = \<lparr>columns = rows statement_df ! 2, rows = drop (Suc 2) (rows statement_df)\<rparr>"
    using detect_and_skip_header_first_match[of 2 statement_df demo_lib] len before at
    by blast
  moreover have "detect_and_skip_header demo_lib plain_df = plain_df"
    using detect_and_skip_header_first_match[of 0 plain_df demo_lib] plain_no_keyword
    by blast
  ultimately show ?thesis
    using len at statement_row0 statement_row1 no_keyword_row0 no_keyword_row1
    by (simp add: statement_df_def)
qed

section \<open>Properties of the table operations\<close>

lemma columns_select [simp]: "columns (select_columns df js) = map (\<lambda>j. columns df ! j) js"
  by (simp add: select_columns_def)

lemma rows_select [simp]:
  "rows (select_columns df js) = map (\<lambda>row. map (cell_at row) js) (rows df)"
  by (simp add: select_columns_def)

lemma cell_at_map: "k < length js \<Longrightarrow> cell_at (map (cell_at row) js) k = cell_at row (js ! k)"
  by (simp add: cell_at_def)

lemma column_at_select:
  "k < length js \<Longrightarrow> column_at (select_columns df js) k = column_at df (js ! k)"
  by (simp add: column_at_def cell_at_map)

lemma set_columns_drop:
  "set (columns (drop_columns df ls)) = set (columns df) - set ls"
proof -
  have "set (columns (drop_columns df ls))
          = (\<lambda>j. columns df ! j) ` {j. j < length (columns df) \<and> columns df ! j \<notin> set ls}"
    by (auto simp: drop_columns_def)
  also have "\<dots> = set (columns df) - set ls"
    by (auto simp: in_set_conv_nth)
  finally show ?thesis .
qed

lemma positions_lt: "j \<in> set (positions df l) \<Longrightarrow> j < length (columns df) \<and> columns df ! j = l"
  by (auto simp: positions_def)

lemma positions_iff: "j \<in> set (positions df l) \<longleftrightarrow> j < length (columns df) \<and> columns df ! j = l"
  by (auto simp: positions_def)

lemma positions_mem: "positions df l \<noteq> [] \<Longrightarrow> l \<in> set (columns df)"
proof -
  assume "positions df l \<noteq> []"
  then have "hd (positions df l) \<in> set (positions df l)" by simp
  then show ?thesis using positions_iff nth_mem by metis
qed

lemma set_column_mem: "l \<in> set (columns (set_column df l vals))"
  by (simp add: set_column_def)

lemma length_rows_set_column:
  "length vals = length (rows df) \<Longrightarrow> length (rows (set_column df l vals)) = length (rows df)"
  by (simp add: set_column_def)

lemma map_zip_snd_const:
  "length xs = length ys \<Longrightarrow> map (\<lambda>(x, y). f y) (zip xs ys) = map f ys"
  by (induction xs ys rule: list_induct2) auto

lemma set_column_col:
  assumes "length vals = length (rows df)"
    and "j \<in> set (positions (set_column df l vals) l)"
  shows "column_at (set_column df l vals) j = vals"
proof (cases "l \<in> set (columns df)")
  case True
  then have j: "j < length (columns df)" "columns df ! j = l"
    using assms(2) by (auto simp: positions_iff set_column_def)
  have "column_at (set_column df l vals) j
          = map (\<lambda>(row, v). v) (zip (rows df) vals)"
    using True j by (simp add: column_at_def set_column_def cell_at_def case_prod_unfold)
  then show ?thesis using assms(1) map_zip_snd_const[of "rows df" vals "\<lambda>v. v"] by (simp add: case_prod_unfold)
next
  case False
  then have "j < Suc (length (columns df))" "(columns df @ [l]) ! j = l"
    using assms(2) by (auto simp: positions_iff set_column_def)
  then have j: "j = length (columns df)"
    using False by (metis less_Suc_eq nth_append nth_mem)
  have "column_at (set_column df l vals) j
          = map (\<lambda>(row, v). v) (zip (rows df) vals)"
    using False j by (simp add: column_at_def set_column_def cell_at_def case_prod_unfold nth_append)
  then show ?thesis using assms(1) map_zip_snd_const[of "rows df" vals "\<lambda>v. v"] by (simp add: case_prod_unfold)
qed

lemma drop_columns_col:
  assumes "k \<in> set (positions (drop_columns df ls) l)"
  shows "\<exists>j \<in> set (positions df l). column_at (drop_columns df ls) k = column_at df j"
proof -
  let ?js = "filter (\<lambda>j. columns df ! j \<notin> set ls) [0..<length (columns df)]"
  have k: "k < length ?js" "columns df ! (?js ! k) = l"
    using assms by (auto simp: positions_iff drop_columns_def)
  have "?js ! k \<in> set ?js" using k(1) by (rule nth_mem)
  then have "?js ! k < length (columns df)" by auto
  then have "?js ! k \<in> set (positions df l)" using k(2) by (simp add: positions_iff)
  moreover have "column_at (drop_columns df ls) k = column_at df (?js ! k)"
    using k(1) by (simp add: drop_columns_def column_at_select)
  ultimately show ?thesis by blast
qed

lemma map_zip_same_source:
  "map (\<lambda>(c, d). F c d) (zip (map f xs) (map g xs)) = map (\<lambda>x. F (f x) (g x)) xs"
  by (induction xs) auto

lemma reconcile_both:
  assumes "length (positions df ''debit'') = 1" "length (positions df ''credit'') = 1"
  shows "\<exists>df'. reconcile_amount lib df = Inr df'
     \<and> ''debit'' \<notin> set (columns df') \<and> ''credit'' \<notin> set (columns df')
     \<and> ''amount'' \<in> set (columns df')
     \<and> list_all (\<lambda>k. column_at df' k
           = map (\<lambda>row. Flt (fsub (parse_both lib (cell_at row (hd (positions df ''credit''))))
                                  (parse_both lib (cell_at row (hd (positions df ''debit''))))))
               (rows df)) (positions df' ''amount'')"
proof -
  define vals where "vals = map (\<lambda>(c, d). Flt (fsub c d))
       (zip (map (parse_both lib) (column_at df (hd (positions df ''credit''))))
            (map (parse_both lib) (column_at df (hd (positions df ''debit'')))))"
  define df1 where "df1 = set_column df ''amount'' vals"
  define df2 where "df2 = drop_columns df1 [''debit'', ''credit'']"
  have ne: "positions df ''debit'' \<noteq> []" "positions df ''credit'' \<noteq> []"
    using assms by auto
  have mem: "''debit'' \<in> set (columns df)" "''credit'' \<in> set (columns df)"
    using ne by (simp_all add: positions_mem)
  have r: "reconcile_amount lib df = Inr df2"
    using assms mem by (simp add: reconcile_amount_def Let_def df2_def df1_def vals_def)
  have vals: "vals = map (\<lambda>row. Flt (fsub (parse_both lib (cell_at row (hd (positions df ''credit''))))
                                  (parse_both lib (cell_at row (hd (positions df ''debit''))))))
               (rows df)"
    by (simp add: vals_def column_at_def map_zip_same_source comp_def)
  have len: "length vals = length (rows df)"
    by (simp add: vals)
  have a: "''amount'' \<in> set (columns df2)"
    using set_column_mem[of "''amount''" df vals] by (simp add: set_columns_drop df2_def df1_def)
  have nd: "''debit'' \<notin> set (columns df2)" "''credit'' \<notin> set (columns df2)"
    by (simp_all add: set_columns_drop df2_def)
  have cols: "list_all (\<lambda>k. column_at df2 k = vals) (positions df2 ''amount'')"
    unfolding list_all_iff
  proof
    fix k
    assume k: "k \<in> set (positions df2 ''amount'')"
    have "\<exists>j \<in> set (positions df1 ''amount''). column_at df2 k = column_at df1 j"
      using k unfolding df2_def by (rule drop_columns_col)
    then obtain j where j: "j \<in> set (positions df1 ''amount'')"
      and e: "column_at df2 k = column_at df1 j"
      by auto
    have "column_at df1 j = vals"
      using j unfolding df1_def by (rule set_column_col[OF len])
    then show "column_at df2 k = vals"
      using e by simp
  qed
  show ?thesis
    using r a nd cols unfolding vals by blast
qed


section \<open>Properties of the amount reconciliation\<close>

lemmas literal_defs = py_float_def py_int_def signed_digits_def split_sign_def strip_def
  is_space_def is_digit_def digit_val_def nat_of_digits_def scale10_def lower_def lower_char_def
  float_or_zero_def

lemma replace_char_filter: "replace [c] [] s = filter (\<lambda>x. x \<noteq> c) s"
  by (induction s) auto

lemma float_or_zero_0: "float_or_zero ''0'' = Finite 0"
  by (simp add: literal_defs Let_def)

lemma strip_0: "strip ''0'' = ''0''"
  by (simp add: strip_def is_space_def)

lemma parse_both_missing: "parse_both lib (Flt NaN) = Finite 0" "parse_both lib NaT = Finite 0"
  by (simp_all add: parse_both_def fillna0_def Let_def strip_0 float_or_zero_0)

lemma parse_both_placeholder: "parse_both lib (Str ''--'') = Finite 0"
  by (simp add: parse_both_def fillna0_def Let_def strip_0 float_or_zero_0)

lemma parse_both_blank: "parse_both lib (Str []) = Finite 0"
  by (simp add: parse_both_def fillna0_def Let_def strip_def)

lemma parse_both_Str:
  "parse_both lib (Str s) =
     (if s = ''--'' then Finite 0
      else (let clean_val = strip (replace ''--'' ''0'' (filter (\<lambda>x. x \<noteq> CHR '','') s))
            in if clean_val = [] \<or> clean_val = ''--'' then Finite 0 else float_or_zero clean_val))"
  by (simp add: parse_both_def fillna0_def Let_def replace_char_filter strip_0 float_or_zero_0)

lemma parse_both_commas:
  "parse_both lib (Str s) = parse_both lib (Str (filter (\<lambda>x. x \<noteq> CHR '','') s))"
proof (cases "filter (\<lambda>x. x \<noteq> CHR '','') s = ''--''")
  case True
  then have "parse_both lib (Str s) = Finite 0"
    by (simp add: parse_both_Str Let_def strip_0 float_or_zero_0)
  then show ?thesis
    using True by (simp add: parse_both_placeholder)
next
  case False
  then have "s \<noteq> ''--''"
    by auto
  then show ?thesis
    using False by (simp add: parse_both_Str)
qed

lemma parse_both_examples:
  "parse_both lib (IntC 1000) = Finite 1000"
  "parse_both lib (IntC 0) = Finite 0"
  "parse_both lib (Str ''2,500'') = Finite 2500"
  "parse_both lib (Str ''1,250.50'') = Finite 1250.5"
  by (simp_all add: parse_both_def fillna0_def literal_defs Let_def string_of_int_def
      string_of_nat.simps digit_char_def)

text \<open>
  C4. With one debit and one credit column, reconciliation succeeds, removes both, and
  leaves an amount column that holds, for every row, the parsed credit cell minus the
  parsed debit cell. The parse gives zero for a missing cell, for the placeholder \<open>--\<close>
  and for an empty text, and does not see the commas of a text; the number 1000 parses
  to 1000, the number 0 to 0 and the text \<open>2,500\<close> to 2500.
\<close>

theorem reconcile_amount_credit_minus_debit:
  assumes "length (positions df ''debit'') = 1" and "length (positions df ''credit'') = 1"
  shows "(\<exists>df'. reconcile_amount lib df = Inr df'
            \<and> ''debit'' \<notin> set (columns df') \<and> ''credit'' \<notin> set (columns df')
            \<and> ''amount'' \<in> set (columns df')
            \<and> list_all (\<lambda>k. column_at df' k
                  = map (\<lambda>row. Flt (fsub (parse_both lib (cell_at row (hd (positions df ''credit''))))
                                         (parse_both lib (cell_at row (hd (positions df ''debit''))))))
                      (rows df)) (positions df' ''amount''))
         \<and> parse_both lib (Flt NaN) = Finite 0
         \<and> parse_both lib (Str ''--'') = Finite 0
         \<and> parse_both lib (Str []) = Finite 0
         \<and> parse_both lib (Str s) = parse_both lib (Str (filter (\<lambda>x. x \<noteq> CHR '','') s))
         \<and> fsub (parse_both lib (IntC 0)) (parse_both lib (IntC 1000)) = Finite (- 1000)
         \<and> fsub (parse_both lib (IntC 1000)) (parse_both lib (IntC 0)) = Finite 1000
         \<and> fsub (parse_both lib (Str ''2,500'')) (parse_both lib (Str ''--'')) = Finite 2500"
  using reconcile_both[OF assms, of lib] parse_both_commas[of lib s]
  by (simp add: parse_both_missing parse_both_placeholder parse_both_blank parse_both_examples)

lemma recon_positions:
  "positions recon_df ''debit'' = [0]" "positions recon_df ''credit'' = [1]"
  by (simp_all add: positions_def recon_df_def upt_rec)

lemma recon_amounts:
  "map (\<lambda>row. Flt (fsub (parse_both demo_lib (cell_at row (hd (positions recon_df ''credit''))))
                         (parse_both demo_lib (cell_at row (hd (positions recon_df ''debit''))))))
     (rows recon_df)
   = [Flt (Finite (- 1000)), Flt (Finite 1000), Flt (Finite 2500), Flt (Finite (- 1250.5))]"
  by (simp add: recon_positions)
     (simp add: recon_df_def cell_at_def parse_both_examples parse_both_missing
        parse_both_placeholder)

theorem reconcile_amount_credit_minus_debit_witness:
  "length (positions recon_df ''debit'') = 1 \<and> length (positions recon_df ''credit'') = 1
   \<and> (\<exists>df'. reconcile_amount demo_lib recon_df = Inr df'
          \<and> ''amount'' \<in> set (columns df')
          \<and> list_all (\<lambda>k. column_at df' k
                = [Flt (Finite (- 1000)), Flt (Finite 1000), Flt (Finite 2500),
                   Flt (Finite (- 1250.5))]) (positions df' ''amount''))"
proof -
  have d: "length (positions recon_df ''debit'') = 1"
    and c: "length (positions recon_df ''credit'') = 1"
    by (simp_all add: recon_positions)
  show ?thesis
    using reconcile_amount_credit_minus_debit[OF d c, of demo_lib "[]"] d c
    unfolding recon_amounts by blast
qed

section \<open>Properties of the cleaning pipeline\<close>

lemma positions_columns_cong: "columns a = columns b \<Longrightarrow> positions a l = positions b l"
  by (simp add: positions_def)

lemma columns_set_column_present:
  "l \<in> set (columns df) \<Longrightarrow> columns (set_column df l vals) = columns df"
  by (simp add: set_column_def)

lemma column_at_nth:
  "i < length (rows df) \<Longrightarrow> cell_at (rows df ! i) j = column_at df j ! i"
  by (simp add: column_at_def)

lemma is_time_present: "is_time c \<Longrightarrow> \<not> isna c \<Longrightarrow> \<exists>t. c = Stamp t"
  by (cases c) auto

lemma convert_date_cells:
  assumes "convert_date lib df = Inr df2" and "row \<in> set (rows df2)"
    and "j \<in> set (positions df2 ''date'')"
  shows "is_time (cell_at row j)"
proof -
  define col where "col = column_at df (hd (positions df ''date''))"
  define vals where
    "vals = map (\<lambda>i. case to_datetime lib col i of Some t \<Rightarrow> Stamp t | None \<Rightarrow> NaT) [0..<length col]"
  have one: "length (positions df ''date'') = 1"
    using assms(1) by (simp add: convert_date_def split: if_splits)
  have df2: "df2 = set_column df ''date'' vals"
    using assms(1) one by (simp add: convert_date_def Let_def vals_def col_def)
  have len: "length vals = length (rows df)"
    by (simp add: vals_def col_def column_at_def)
  have col2: "column_at df2 j = vals"
    using assms(3) unfolding df2 by (rule set_column_col[OF len])
  obtain i where i: "i < length (rows df2)" "rows df2 ! i = row"
    using assms(2) by (auto simp: in_set_conv_nth)
  have "cell_at row j = vals ! i"
    using column_at_nth[OF i(1), of j] i(2) col2 by simp
  moreover have "i < length vals"
    using i(1) len by (simp add: df2 length_rows_set_column)
  moreover have "list_all is_time vals"
    by (simp add: vals_def list_all_iff split: option.splits)
  ultimately show ?thesis
    by (simp add: list_all_length)
qed

lemma valid_row_append:
  "valid_row df row \<longleftrightarrow>
     list_all (\<lambda>j. \<not> isna (cell_at row j)) (positions df ''date'')
     \<and> list_all (\<lambda>j. \<not> isna (cell_at row j) \<and> ne_zero (cell_at row j)) (positions df ''amount'')
     \<and> list_all (\<lambda>j. \<not> isna (cell_at row j)) (positions df ''description'')"
  by (auto simp: valid_row_def list_all_iff)

lemma select_required_columns:
  assumes "select_required df = Inr df1"
  shows "''date'' \<in> set (columns df1)" "''description'' \<in> set (columns df1)"
    "''amount'' \<in> set (columns df1)"
proof -
  have req: "''date'' \<in> set (columns df)" "''description'' \<in> set (columns df)"
    "''amount'' \<in> set (columns df)"
    using assms by (simp_all add: select_required_def required_def split: if_splits)
  have df1: "columns df1 = concat (map (\<lambda>l. map (\<lambda>j. columns df ! j) (positions df l)) required)"
    using assms by (auto simp: select_required_def map_concat comp_def split: if_splits)
  have same: "\<And>l. map (\<lambda>j. columns df ! j) (positions df l) = replicate (length (positions df l)) l"
    by (auto simp: positions_def intro!: replicate_eqI)
  have ne: "\<And>l. l \<in> set (columns df) \<Longrightarrow> positions df l \<noteq> []"
    by (auto simp: positions_def filter_empty_conv in_set_conv_nth)
  show "''date'' \<in> set (columns df1)" "''description'' \<in> set (columns df1)"
    "''amount'' \<in> set (columns df1)"
    using req ne by (auto simp: df1 same required_def)
qed

lemma clean_rows_result:
  assumes "clean_rows lib df = Inr out"
  shows "\<exists>df1 df2. select_required df = Inr df1 \<and> convert_date lib df1 = Inr df2
           \<and> out = drop_invalid_rows df2 \<and> columns out = columns df1"
proof -
  obtain df1 where 1: "select_required df = Inr df1"
    using assms by (auto simp: clean_rows_def split: sum.splits)
  obtain df2 where 2: "convert_date lib df1 = Inr df2"
    using assms 1 by (auto simp: clean_rows_def split: sum.splits)
  have out: "out = drop_invalid_rows df2"
    using assms 1 2 by (simp add: clean_rows_def)
  have "columns df2 = columns df1"
    using 2 select_required_columns(1)[OF 1]
    by (auto simp: convert_date_def Let_def columns_set_column_present split: if_splits)
  then show ?thesis
    using 1 2 out by (simp add: drop_invalid_rows_def)
qed

lemma clean_rows_valid:
  assumes "clean_rows lib df = Inr out" and "row \<in> set (rows out)"
  shows "list_all (\<lambda>j. \<not> isna (cell_at row j) \<and> ne_zero (cell_at row j)) (positions out ''amount'')
         \<and> list_all (\<lambda>j. \<not> isna (cell_at row j)) (positions out ''description'')
         \<and> list_all (\<lambda>j. \<exists>t. cell_at row j = Stamp t) (positions out ''date'')"
proof -
  obtain df1 df2 where 1: "select_required df = Inr df1"
    and 2: "convert_date lib df1 = Inr df2" and out: "out = drop_invalid_rows df2"
    using clean_rows_result[OF assms(1)] by blast
  have cols: "columns out = columns df2"
    by (simp add: out drop_invalid_rows_def)
  have pos: "\<And>l. positions out l = positions df2 l"
    using cols by (rule positions_columns_cong)
  have row: "row \<in> set (rows df2)" "valid_row df2 row"
    using assms(2) by (simp_all add: out drop_invalid_rows_def)
  have v: "list_all (\<lambda>j. \<not> isna (cell_at row j)) (positions df2 ''date'')"
    "list_all (\<lambda>j. \<not> isna (cell_at row j) \<and> ne_zero (cell_at row j)) (positions df2 ''amount'')"
    "list_all (\<lambda>j. \<not> isna (cell_at row j)) (positions df2 ''description'')"
    using row(2) by (simp_all add: valid_row_append)
  have "list_all (\<lambda>j. \<exists>t. cell_at row j = Stamp t) (positions df2 ''date'')"
    unfolding list_all_iff
  proof
    fix j
    assume j: "j \<in> set (positions df2 ''date'')"
    have "is_time (cell_at row j)"
      using 2 row(1) j by (rule convert_date_cells)
    moreover have "\<not> isna (cell_at row j)"
      using v(1) j by (simp add: list_all_iff)
    ultimately show "\<exists>t. cell_at row j = Stamp t"
      by (rule is_time_present)
  qed
  then show ?thesis
    using v by (simp add: pos)
qed

lemma ne_zero_not_zero: "ne_zero c \<Longrightarrow> c \<noteq> Flt (Finite 0) \<and> c \<noteq> IntC 0"
  by (cases c) auto

lemma load_and_clean_via:
  assumes "load_and_clean_expenses lib file_path df_override skip = Inr out"
  shows "\<exists>df0 df. load_input lib file_path df_override = Inr df0
           \<and> map_and_reconcile lib df0 skip = Inr df \<and> clean_rows lib df = Inr out"
  using assms by (auto simp: load_and_clean_expenses_def split: sum.splits)

text \<open>
  What the last steps of the cleaning guarantee for every table that the pipeline returns:
  it has the columns date, description and amount, and in every row of it the amount cell
  is not the missing value and is neither the float nor the integer zero, the description
  cell is not the missing value, and the date cell is a timestamp. The returned rows are
  the rows of the table with converted dates that pass \<open>valid_row\<close>, in their order.
\<close>

lemma cleaned_rows_present:
  assumes "load_and_clean_expenses lib file_path df_override skip = Inr out"
  shows "''date'' \<in> set (columns out) \<and> ''description'' \<in> set (columns out)
         \<and> ''amount'' \<in> set (columns out)
         \<and> list_all (\<lambda>row.
               list_all (\<lambda>j. \<not> isna (cell_at row j) \<and> ne_zero (cell_at row j)
                              \<and> cell_at row j \<noteq> Flt (Finite 0) \<and> cell_at row j \<noteq> IntC 0)
                 (positions out ''amount'')
               \<and> list_all (\<lambda>j. \<not> isna (cell_at row j)) (positions out ''description'')
               \<and> list_all (\<lambda>j. \<exists>t. cell_at row j = Stamp t) (positions out ''date''))
             (rows out)
         \<and> (\<exists>df0 df df1 df2.
               load_input lib file_path df_override = Inr df0
               \<and> map_and_reconcile lib df0 skip = Inr df
               \<and> select_required df = Inr df1
               \<and> convert_date lib df1 = Inr df2
               \<and> columns out = columns df2
               \<and> rows out = filter (valid_row df2) (rows df2))"
proof -
  obtain df0 df where l: "load_input lib file_path df_override = Inr df0"
    and m: "map_and_reconcile lib df0 skip = Inr df"
    and c: "clean_rows lib df = Inr out"
    using load_and_clean_via[OF assms] by blast
  obtain df1 df2 where 1: "select_required df = Inr df1"
    and 2: "convert_date lib df1 = Inr df2" and out: "out = drop_invalid_rows df2"
    and cols: "columns out = columns df1"
    using clean_rows_result[OF c] by blast
  have req: "''date'' \<in> set (columns out)" "''description'' \<in> set (columns out)"
    "''amount'' \<in> set (columns out)"
    using select_required_columns[OF 1] cols by simp_all
  have rows: "list_all (\<lambda>row.
               list_all (\<lambda>j. \<not> isna (cell_at row j) \<and> ne_zero (cell_at row j)
                              \<and> cell_at row j \<noteq> Flt (Finite 0) \<and> cell_at row j \<noteq> IntC 0)
                 (positions out ''amount'')
               \<and> list_all (\<lambda>j. \<not> isna (cell_at row j)) (positions out ''description'')
               \<and> list_all (\<lambda>j. \<exists>t. cell_at row j = Stamp t) (positions out ''date''))
             (rows out)"
    unfolding list_all_iff[of _ "rows out"]
  proof
    fix row
    assume "row \<in> set (rows out)"
    from clean_rows_valid[OF c this] show
      "list_all (\<lambda>j. \<not> isna (cell_at row j) \<and> ne_zero (cell_at row j)
                      \<and> cell_at row j \<noteq> Flt (Finite 0) \<and> cell_at row j \<noteq> IntC 0)
         (positions out ''amount'')
       \<and> list_all (\<lambda>j. \<not> isna (cell_at row j)) (positions out ''description'')
       \<and> list_all (\<lambda>j. \<exists>t. cell_at row j = Stamp t) (positions out ''date'')"
      using ne_zero_not_zero by (auto simp: list_all_iff)
  qed
  have "columns out = columns df2 \<and> rows out = filter (valid_row df2) (rows df2)"
    by (simp add: out drop_invalid_rows_def)
  then show ?thesis
    using req rows l m 1 2 by blast
qed

lemmas table_defs = cell_at_def column_at_def select_columns_def positions_def drop_columns_def
  set_column_def

lemmas mapper_defs = map_and_reconcile_def standardize_columns_def dedupe_columns_def unique_def
  drop_empty_columns_def drop_unnamed_columns_def drop_index_column_def rename_columns_def
  map_column_def reconcile_amount_def parse_both_def parse_debit_def fillna0_def

lemmas cleaner_defs = clean_rows_def select_required_def required_def convert_date_def
  drop_invalid_rows_def valid_row_def

lemma upt_small:
  "[0..<1] = [0]" "[0..<2] = [0, 1]" "[0..<3] = [0, 1, 2]" "[0..<4] = [0, 1, 2, 3]"
  "[0..<5] = [0, 1, 2, 3, 4]"
  by (simp_all add: upt_rec)

lemma noisy_mapped:
  "map_and_reconcile demo_lib noisy_df True
     = Inr \<lparr>columns = [''date'', ''description'', ''amount''],
            rows = [[Str ''2024-01-15'', Str ''Uber Trip Lagos'', Flt (Finite (- 1000))],
                    [Str ''2024-01-15'', Str ''Reversal'', Flt (Finite 0)],
                    [Str ''2024-01-15'', Flt NaN, Flt (Finite (- 300))],
                    [Str ''pending'', Str ''Shoprite'', Flt (Finite (- 450))],
                    [Str ''2024-02-01'', Str ''Salary'', Flt (Finite 2500)]]\<rparr>"
  by (simp add: noisy_df_def mapper_defs literal_defs table_defs upt_small sublist_code Let_def)

lemma noisy_cleaned:
  "clean_rows demo_lib
     \<lparr>columns = [''date'', ''description'', ''amount''],
      rows = [[Str ''2024-01-15'', Str ''Uber Trip Lagos'', Flt (Finite (- 1000))],
              [Str ''2024-01-15'', Str ''Reversal'', Flt (Finite 0)],
              [Str ''2024-01-15'', Flt NaN, Flt (Finite (- 300))],
              [Str ''pending'', Str ''Shoprite'', Flt (Finite (- 450))],
              [Str ''2024-02-01'', Str ''Salary'', Flt (Finite 2500)]]\<rparr>
     = Inr \<lparr>columns = [''date'', ''description'', ''amount''],
            rows = [[Stamp 1705276800000000000, Str ''Uber Trip Lagos'', Flt (Finite (- 1000))],
                    [Stamp 1706745600000000000, Str ''Salary'', Flt (Finite 2500)]]\<rparr>"
  by (simp add: cleaner_defs table_defs upt_small demo_lib_def)

lemma noisy_clean:
  "load_and_clean_expenses demo_lib None (Some noisy_df) True
     = Inr \<lparr>columns = [''date'', ''description'', ''amount''],
            rows = [[Stamp 1705276800000000000, Str ''Uber Trip Lagos'', Flt (Finite (- 1000))],
                    [Stamp 1706745600000000000, Str ''Salary'', Flt (Finite 2500)]]\<rparr>"
  by (simp add: load_and_clean_expenses_def load_input_def noisy_mapped noisy_cleaned)

lemma cleaned_rows_present_example:
  "load_and_clean_expenses demo_lib None (Some noisy_df) True
     = Inr \<lparr>columns = [''date'', ''description'', ''amount''],
            rows = [[Stamp 1705276800000000000, Str ''Uber Trip Lagos'', Flt (Finite (- 1000))],
                    [Stamp 1706745600000000000, Str ''Salary'', Flt (Finite 2500)]]\<rparr>
   \<and> list_all (\<lambda>row.
         list_all (\<lambda>j. \<not> isna (cell_at row j) \<and> ne_zero (cell_at row j)
                        \<and> cell_at row j \<noteq> Flt (Finite 0) \<and> cell_at row j \<noteq> IntC 0) [2]
         \<and> list_all (\<lambda>j. \<not> isna (cell_at row j)) [1]
         \<and> list_all (\<lambda>j. \<exists>t. cell_at row j = Stamp t) [0])
       [[Stamp 1705276800000000000, Str ''Uber Trip Lagos'', Flt (Finite (- 1000))],
        [Stamp 1706745600000000000, Str ''Salary'', Flt (Finite 2500)]]"
proof -
  have pos: "positions \<lparr>columns = [''date'', ''description'', ''amount''], rows = r\<rparr> ''amount'' = [2]"
    "positions \<lparr>columns = [''date'', ''description'', ''amount''], rows = r\<rparr> ''description'' = [1]"
    "positions \<lparr>columns = [''date'', ''description'', ''amount''], rows = r\<rparr> ''date'' = [0]"
    for r :: "cell list list"
    by (simp_all add: positions_def upt_small)
  show ?thesis
    using cleaned_rows_present[OF noisy_clean] noisy_clean
    by (simp add: pos)
qed

lemma text_amount_mapped:
  "map_and_reconcile demo_lib text_amount_df True
     = Inr \<lparr>columns = [''date'', ''description'', ''amount''],
            rows = [[Str ''2024-01-15'', Str ''Opening balance'', Str ''0''],
                    [Str ''2024-02-01'', Str ''Salary'', Str ''2,500'']]\<rparr>"
  by (simp add: text_amount_df_def mapper_defs literal_defs table_defs upt_small sublist_code
      Let_def)

lemma text_amount_cleaned:
  "clean_rows demo_lib
     \<lparr>columns = [''date'', ''description'', ''amount''],
      rows = [[Str ''2024-01-15'', Str ''Opening balance'', Str ''0''],
              [Str ''2024-02-01'', Str ''Salary'', Str ''2,500'']]\<rparr>
     = Inr \<lparr>columns = [''date'', ''description'', ''amount''],
            rows = [[Stamp 1705276800000000000, Str ''Opening balance'', Str ''0''],
                    [Stamp 1706745600000000000, Str ''Salary'', Str ''2,500'']]\<rparr>"
  by (simp add: cleaner_defs table_defs upt_small demo_lib_def)

text \<open>
  C1 does not hold of the code. Only debit and credit columns are converted to numbers; an
  amount column is taken as it is, although the comment before line 254 says that the
  amount is made numeric, and the comparison \<open>amount != 0\<close> of line 262, meant to remove
  the transactions of amount zero, holds for every text. So the table whose amounts are
  the texts 0 and 2,500 comes back with both rows: the row of amount 0 is emitted.
\<close>

theorem load_and_clean_expenses_text_zero_kept:
  "load_and_clean_expenses demo_lib None (Some text_amount_df) True
     = Inr \<lparr>columns = [''date'', ''description'', ''amount''],
            rows = [[Stamp 1705276800000000000, Str ''Opening balance'', Str ''0''],
                    [Stamp 1706745600000000000, Str ''Salary'', Str ''2,500'']]\<rparr>"
  by (simp add: load_and_clean_expenses_def load_input_def text_amount_mapped
      text_amount_cleaned)

text \<open>
  In the same way a description that is the empty text, which a table built by hand can
  hold and \<open>read_csv\<close> never yields, is kept: \<open>dropna\<close> removes missing values only.
\<close>

lemma empty_text_description_kept:
  "load_and_clean_expenses demo_lib None (Some blank_text_df) True
     = Inr \<lparr>columns = [''date'', ''description'', ''amount''],
            rows = [[Stamp 1705276800000000000, Str [], Flt (Finite 40)]]\<rparr>"
  by (simp add: load_and_clean_expenses_def load_input_def)
     (simp add: blank_text_df_def mapper_defs cleaner_defs literal_defs table_defs upt_small
        sublist_code Let_def demo_lib_def)

text \<open>
  C2. When the table that column mapping and reconciliation produce lacks one of date,
  description and amount, the pipeline raises the error that names the three required
  columns and the columns of that table, and returns no table.
\<close>

theorem load_and_clean_expenses_missing_columns:
  assumes "load_input lib file_path df_override = Inr df0"
    and "map_and_reconcile lib df0 skip = Inr df"
    and "\<not> list_all (\<lambda>c. c \<in> set (columns df)) [''date'', ''description'', ''amount'']"
  shows "load_and_clean_expenses lib file_path df_override skip
           = Inl (MissingColumns [''date'', ''description'', ''amount''] (columns df))"
  using assms
  by (simp add: load_and_clean_expenses_def clean_rows_def select_required_def required_def)

lemma undated_mapped:
  "map_and_reconcile demo_lib undated_df True
     = Inr \<lparr>columns = [''description'', ''amount''],
            rows = [[Str ''Uber Trip Lagos'', Flt (Finite (- 1000))]]\<rparr>"
  by (simp add: undated_df_def mapper_defs literal_defs table_defs upt_small sublist_code Let_def)

theorem load_and_clean_expenses_missing_columns_witness:
  "load_input demo_lib None (Some undated_df) = Inr undated_df
   \<and> map_and_reconcile demo_lib undated_df True
       = Inr \<lparr>columns = [''description'', ''amount''],
              rows = [[Str ''Uber Trip Lagos'', Flt (Finite (- 1000))]]\<rparr>
   \<and> \<not> list_all (\<lambda>c. c \<in> set [''description'', ''amount'']) [''date'', ''description'', ''amount'']
   \<and> load_and_clean_expenses demo_lib None (Some undated_df) True
       = Inl (MissingColumns [''date'', ''description'', ''amount''] [''description'', ''amount''])"
proof -
  have a: "load_input demo_lib None (Some undated_df) = Inr undated_df"
    by (simp add: load_input_def)
  have c: "\<not> list_all (\<lambda>c. c \<in> set (columns \<lparr>columns = [''description'', ''amount''],
              rows = [[Str ''Uber Trip Lagos'', Flt (Finite (- 1000))]]\<rparr>))
            [''date'', ''description'', ''amount'']"
    by simp
  show ?thesis
    using load_and_clean_expenses_missing_columns[OF a undated_mapped c] a undated_mapped
    by simp
qed

section \<open>Properties of the application's pipeline\<close>

lemma seek_pos: "seek (f\<lparr>pos := p\<rparr>) n = seek f n"
  by (simp add: seek_def)

lemma read_raw_pos: "read_raw lib (f\<lparr>pos := p\<rparr>) h m = read_raw lib f h m"
  unfolding read_raw_def seek_pos by (rule refl)

lemma read_raw_buffer: "snd (read_raw lib f h m) = f\<lparr>pos := length (content f)\<rparr>"
  by (simp add: read_raw_def read_file_def seek_def split: option.splits sum.splits)

lemma process_data_pos: "process_data lib (f\<lparr>pos := p\<rparr>) h m = process_data lib f h m"
  by (simp add: process_data_def read_raw_pos)

lemma process_data_buffer: "snd (process_data lib f h m) = f\<lparr>pos := length (content f)\<rparr>"
proof -
  obtain r f' where r: "read_raw lib f h m = (r, f')"
    by (cases "read_raw lib f h m")
  then have "f' = f\<lparr>pos := length (content f)\<rparr>"
    using read_raw_buffer[of lib f h m] by simp
  then show ?thesis
    using r by (simp add: process_data_def split: sum.splits)
qed

text \<open>
  C9. Two runs of the application's pipeline on buffers that hold the same text, with the
  same header row index and the same manual flag, return the same result: the same table
  (the same rows in the same order, with the same categories, anomaly flags and months)
  or the same error, at whatever read position each run finds its buffer. In particular
  a second run on the buffer that the first run leaves behind returns what the first run
  returned, and a run does not change the text of the buffer.
\<close>

theorem process_data_deterministic:
  assumes "content buf' = content buf"
  shows "fst (process_data lib buf' header_row_idx manual_mode)
           = fst (process_data lib buf header_row_idx manual_mode)
         \<and> fst (process_data lib (snd (process_data lib buf header_row_idx manual_mode))
                  header_row_idx manual_mode)
             = fst (process_data lib buf header_row_idx manual_mode)
         \<and> content (snd (process_data lib buf header_row_idx manual_mode)) = content buf"
proof -
  have "buf' = buf\<lparr>pos := pos buf'\<rparr>"
    using assms by simp
  then have "process_data lib buf' header_row_idx manual_mode
               = process_data lib buf header_row_idx manual_mode"
    using process_data_pos[where f = buf and p = "pos buf'"] by metis
  then show ?thesis
    by (simp add: process_data_buffer process_data_pos)
qed

lemma statement_mapped:
  "map_and_reconcile demo_lib statement_df False
     = Inr \<lparr>columns = [''date'', ''description'', ''amount''],
            rows = [[Str ''2024-01-15'', Str ''Uber Trip Lagos'', Flt (Finite (- 1000))],
                    [Str ''2024-02-01'', Str ''Salary'', Flt (Finite 2500)]]\<rparr>"
  unfolding map_and_reconcile_def
  by (simp add: statement_header)
     (simp add: promote_header_def statement_df_def mapper_defs literal_defs table_defs
        upt_small sublist_code Let_def)

lemma statement_cleaned:
  "clean_rows demo_lib
     \<lparr>columns = [''date'', ''description'', ''amount''],
      rows = [[Str ''2024-01-15'', Str ''Uber Trip Lagos'', Flt (Finite (- 1000))],
              [Str ''2024-02-01'', Str ''Salary'', Flt (Finite 2500)]]\<rparr>
     = Inr \<lparr>columns = [''date'', ''description'', ''amount''],
            rows = [[Stamp 1705276800000000000, Str ''Uber Trip Lagos'', Flt (Finite (- 1000))],
                    [Stamp 1706745600000000000, Str ''Salary'', Flt (Finite 2500)]]\<rparr>"
  by (simp add: cleaner_defs table_defs upt_small demo_lib_def)

lemma demo_categories:
  "categorize_transaction demo_lib (Str ''Uber Trip Lagos'') = ''Transport''"
  "categorize_transaction demo_lib (Str ''Salary'') = ''Income''"
  by (simp_all add: categorize_transaction_def CATEGORIES_def demo_lib_def demo_ratio_def
      lower_def lower_char_def sublist_code Let_def)

lemma two_rows_not_anomalous:
  "detect_anomalies demo_lib [r1, r2] column 3 = [False, False]"
proof (cases "column r1 = column r2")
  case True
  then show ?thesis
    by (simp add: detect_anomalies_def series_std_def series_mean_def demo_lib_def
        sample_std_def sum_sq_dev_def mean_r_def)
next
  case False
  define d where "d = (column r1 - column r2) / 2"
  have d: "d \<noteq> 0"
    using False by (simp add: d_def)
  have mean: "mean_r [column r1, column r2] = (column r1 + column r2) / 2"
    by (simp add: mean_r_def)
  have m: "column r1 - (column r1 + column r2) / 2 = d" "column r2 - (column r1 + column r2) / 2 = - d"
    by (simp_all add: d_def field_simps)
  have ssd: "sum_sq_dev [column r1, column r2] = 2 * d\<^sup>2"
    unfolding sum_sq_dev_def mean by (simp add: m)
  have std: "sample_std [column r1, column r2] = sqrt (2 * d\<^sup>2)"
    by (simp add: sample_std_def ssd)
  have "\<bar>d\<bar> \<le> sqrt (2 * d\<^sup>2)"
    by (rule real_le_rsqrt) simp
  then have le: "\<bar>d\<bar> / sqrt (2 * d\<^sup>2) \<le> 1"
    using d by (simp add: divide_le_eq)
  have pos: "sqrt (2 * d\<^sup>2) \<noteq> 0"
    using d by simp
  have "\<not> 3 < \<bar>d / sqrt (2 * d\<^sup>2)\<bar>"
    using le by (simp add: abs_divide)
  then show ?thesis
    using pos
    by (simp add: detect_anomalies_def series_std_def series_mean_def demo_lib_def std mean m)
qed

lemma statement_annotated:
  "annotate demo_lib
     \<lparr>columns = [''date'', ''description'', ''amount''],
      rows = [[Stamp 1705276800000000000, Str ''Uber Trip Lagos'', Flt (Finite (- 1000))],
              [Stamp 1706745600000000000, Str ''Salary'', Flt (Finite 2500)]]\<rparr>
     = Inr \<lparr>columns = [''date'', ''description'', ''amount'', ''category'', ''is_anomaly'', ''month''],
            rows = [[Stamp 1705276800000000000, Str ''Uber Trip Lagos'', Flt (Finite (- 1000)),
                     Str ''Transport'', BoolC False, Str ''2024-01''],
                    [Stamp 1706745600000000000, Str ''Salary'', Flt (Finite 2500),
                     Str ''Income'', BoolC False, Str ''2024-02'']]\<rparr>"
  by (simp add: annotate_def anomaly_column_def table_defs upt_small demo_categories
      two_rows_not_anomalous Let_def)
     (simp add: demo_lib_def)

lemma process_data_example:
  "process_data demo_lib upload None False
     = (Inr \<lparr>columns = [''date'', ''description'', ''amount'', ''category'', ''is_anomaly'', ''month''],
             rows = [[Stamp 1705276800000000000, Str ''Uber Trip Lagos'', Flt (Finite (- 1000)),
                      Str ''Transport'', BoolC False, Str ''2024-01''],
                     [Stamp 1706745600000000000, Str ''Salary'', Flt (Finite 2500),
                      Str ''Income'', BoolC False, Str ''2024-02'']]\<rparr>,
        upload\<lparr>pos := length (content upload)\<rparr>)"
proof -
  have "read_raw demo_lib upload None False
          = (Inr statement_df, upload\<lparr>pos := length (content upload)\<rparr>)"
    by (simp add: read_raw_def read_file_def seek_def upload_def demo_lib_def)
  then show ?thesis
    by (simp add: process_data_def load_and_clean_expenses_def load_input_def statement_mapped
        statement_cleaned statement_annotated)
qed

lemma process_data_manual_example:
  "process_data demo_lib upload (Some 6) True
     = (Inr \<lparr>columns = [''date'', ''description'', ''amount'', ''category'', ''is_anomaly'', ''month''],
             rows = [[Stamp 1705276800000000000, Str ''Uber Trip Lagos'', Flt (Finite (- 1000)),
                      Str ''Transport'', BoolC False, Str ''2024-01''],
                     [Stamp 1706745600000000000, Str ''Salary'', Flt (Finite 2500),
                      Str ''Income'', BoolC False, Str ''2024-02'']]\<rparr>,
        upload\<lparr>pos := length (content upload)\<rparr>)"
proof -
  have "sublist ''unnamed'' (lower (str_cell demo_lib (hd (columns noisy_df)))) = False"
    by (simp add: noisy_df_def lower_def lower_char_def sublist_code)
  moreover have "columns noisy_df \<noteq> []"
    by (simp add: noisy_df_def)
  ultimately have "read_raw demo_lib upload (Some 6) True
          = (Inr noisy_df, upload\<lparr>pos := length (content upload)\<rparr>)"
    by (simp add: read_raw_def read_file_def seek_def upload_def demo_lib_def)
  then show ?thesis
    by (simp add: process_data_def noisy_clean statement_annotated)
qed

theorem process_data_deterministic_witness:
  "content (upload\<lparr>pos := 7\<rparr>) = content upload
   \<and> fst (process_data demo_lib upload None False)
       = Inr \<lparr>columns = [''date'', ''description'', ''amount'', ''category'', ''is_anomaly'', ''month''],
              rows = [[Stamp 1705276800000000000, Str ''Uber Trip Lagos'', Flt (Finite (- 1000)),
                       Str ''Transport'', BoolC False, Str ''2024-01''],
                      [Stamp 1706745600000000000, Str ''Salary'', Flt (Finite 2500),
                       Str ''Income'', BoolC False, Str ''2024-02'']]\<rparr>
   \<and> fst (process_data demo_lib (upload\<lparr>pos := 7\<rparr>) None False)
       = fst (process_data demo_lib upload None False)
   \<and> fst (process_data demo_lib (snd (process_data demo_lib upload None False)) None False)
       = fst (process_data demo_lib upload None False)"
proof -
  have c: "content (upload\<lparr>pos := 7\<rparr>) = content upload"
    by simp
  show ?thesis
    using process_data_deterministic[OF c, of demo_lib None False] c
    by (simp add: process_data_example)
qed

end
